theory Spec2Isabelle
  imports Complex_Main
begin

section \<open>The pyNote client (static/app.js)\<close>

text \<open>
  The embedding follows the methods of the \<^verbatim>\<open>PyNote\<close> class of \<^verbatim>\<open>static/app.js\<close>.
  A JavaScript string is a \<^typ>\<open>string\<close>, one \<^typ>\<open>char\<close> per code unit (texts in the
  Latin-1 range). A count sent by the backend is an \<^typ>\<open>int\<close>. A JavaScript number that
  need not be an integer is the \<^typ>\<open>real\<close> value of a double, and arithmetic on it rounds
  as IEEE 754 binary64 does. A field of a JSON object that may be missing is an
  \<^typ>\<open>'a option\<close>, \<^term>\<open>None\<close> standing for \<^verbatim>\<open>undefined\<close>.
\<close>

subsection \<open>Built-in string and number operations the client uses\<close>

text \<open>
  \<^verbatim>\<open>String.prototype.trim\<close> removes white space and line terminators from both ends.
  Below code unit 256 these are TAB, LF, VT, FF, CR, SPACE and NBSP.
\<close>

definition js_whitespace :: "char \<Rightarrow> bool" where
  "js_whitespace c \<longleftrightarrow>
     c \<in> set [CHR 0x09, CHR 0x0A, CHR 0x0B, CHR 0x0C, CHR 0x0D, CHR 0x20, CHR 0xA0]"

definition js_trim :: "string \<Rightarrow> string" where
  "js_trim s = rev (dropWhile js_whitespace (rev (dropWhile js_whitespace s)))"

text \<open>The decimal text of an integer, as a template literal or \<^verbatim>\<open>+\<close> renders it.\<close>

definition digit_char :: "nat \<Rightarrow> char" where
  "digit_char d = ''0123456789'' ! d"

function nat_digits :: "nat \<Rightarrow> string" where
  "nat_digits n =
     (if n < 10 then [digit_char n] else nat_digits (n div 10) @ [digit_char (n mod 10)])"
  by pat_completeness auto
termination
  by (relation "measure (\<lambda>n. n)") auto

definition js_int_string :: "int \<Rightarrow> string" where
  "js_int_string i = (if i < 0 then CHR ''-'' # nat_digits (nat (- i)) else nat_digits (nat i))"

text \<open>
  A possibly missing string or count inside a template literal or a concatenation:
  \<^verbatim>\<open>undefined\<close> renders as the text \<^verbatim>\<open>undefined\<close>.
\<close>

definition js_string_of :: "string option \<Rightarrow> string" where
  "js_string_of v = (case v of None \<Rightarrow> ''undefined'' | Some s \<Rightarrow> s)"

definition js_count_string :: "int option \<Rightarrow> string" where
  "js_count_string v = (case v of None \<Rightarrow> ''undefined'' | Some n \<Rightarrow> js_int_string n)"

text \<open>Truthiness of a possibly missing string: \<^verbatim>\<open>undefined\<close> and \<^verbatim>\<open>''\<close> are falsy.\<close>

definition truthy :: "string option \<Rightarrow> bool" where
  "truthy v = (case v of None \<Rightarrow> False | Some s \<Rightarrow> s \<noteq> [])"

text \<open>
  Doubles. The number of bits of a positive integer, and the exponent \<open>e\<close> of the binade
  \<open>2^e \<le> |x| < 2^(e+1)\<close> of a non-zero number, not below the exponent -1022 of the
  subnormal numbers.
\<close>

function bit_length :: "int \<Rightarrow> int" where
  "bit_length n = (if n \<le> 0 then 0 else 1 + bit_length (n div 2))"
  by pat_completeness auto
termination
  by (relation "measure nat") auto

declare bit_length.simps [simp del]

definition binade :: "real \<Rightarrow> int" where
  "binade x =
     (if \<bar>x\<bar> \<ge> 1 then bit_length \<lfloor>\<bar>x\<bar>\<rfloor> - 1
      else max (- bit_length (\<lceil>1 / \<bar>x\<bar>\<rceil> - 1)) (- 1022))"

text \<open>The nearest integer, a tie going to the even one.\<close>

definition round_half_even :: "real \<Rightarrow> int" where
  "round_half_even x =
     (if x - of_int \<lfloor>x\<rfloor> < 1 / 2 then \<lfloor>x\<rfloor>
      else if x - of_int \<lfloor>x\<rfloor> > 1 / 2 then \<lfloor>x\<rfloor> + 1
      else if even \<lfloor>x\<rfloor> then \<lfloor>x\<rfloor> else \<lfloor>x\<rfloor> + 1)"

text \<open>
  The double nearest to a number, a tie going to the even significand: the multiple of
  \<open>2^(e-52)\<close> nearest to it. This is how \<^verbatim>\<open>JSON.parse\<close> reads a decimal number and how
  every arithmetic operation rounds its exact result; a double is left as it is. A result
  beyond the largest double, which JavaScript turns into \<^verbatim>\<open>Infinity\<close>, is outside the
  model.
\<close>

definition to_double :: "real \<Rightarrow> real" where
  "to_double x =
     (if x = 0 then 0
      else of_int (round_half_even (x / 2 powi (binade x - 52))) * 2 powi (binade x - 52))"

text \<open>The product \<^verbatim>\<open>x * y\<close> of two doubles.\<close>

definition js_times :: "real \<Rightarrow> real \<Rightarrow> real" where
  "js_times x y = to_double (x * y)"

text \<open>
  \<^verbatim>\<open>Math.round\<close> of a double: the nearest integer, a tie going towards positive
  infinity; it is exact.
\<close>

definition Math_round :: "real \<Rightarrow> int" where
  "Math_round x = \<lfloor>x + 1 / 2\<rfloor>"

text \<open>\<^verbatim>\<open>String.prototype.startsWith\<close>.\<close>

definition startsWith :: "string \<Rightarrow> string \<Rightarrow> bool" where
  "startsWith s p = (take (length p) s = p)"

text \<open>
  \<^verbatim>\<open>s.split('\\n')\<close>: the pieces between line feeds; the result always has a last piece,
  empty when \<^verbatim>\<open>s\<close> ends with a line feed.
\<close>

fun split_lines :: "string \<Rightarrow> string list" where
  "split_lines [] = [[]]"
| "split_lines (c # cs) =
     (if c = CHR 0x0A then [] # split_lines cs
      else (c # hd (split_lines cs)) # tl (split_lines cs))"

subsection \<open>Confidence classes of a similarity percentage\<close>

text \<open>
  \<^verbatim>\<open>getConfidenceClass(percentage)\<close>: a chain of \<^verbatim>\<open>>=\<close> tests from 80 downwards,
  each returning the name of a CSS class, with \<^verbatim>\<open>'confidence-very-low'\<close> in the final
  \<^verbatim>\<open>else\<close>.
\<close>

definition getConfidenceClass :: "int \<Rightarrow> string" where
  "getConfidenceClass percentage =
     (if percentage \<ge> 80 then ''confidence-very-high''
      else if percentage \<ge> 60 then ''confidence-high''
      else if percentage \<ge> 40 then ''confidence-medium''
      else if percentage \<ge> 20 then ''confidence-low''
      else ''confidence-very-low'')"

subsection \<open>Requests, replies and the state of the client\<close>

text \<open>
  What \<^verbatim>\<open>await fetch(...)\<close> followed by \<^verbatim>\<open>await response.json()\<close> gives the caller:
  the parsed body, or an exception with its message (the \<^verbatim>\<open>catch\<close> branch).
\<close>

datatype 'a fetched = Rejected string | Json 'a

text \<open>The requests the modelled methods send, with the fields of their JSON bodies.\<close>

datatype request =
    PostSimilar string string int       \<comment> \<open>\<^verbatim>\<open>/api/similar {query, current_file, limit}\<close>\<close>
  | PostReindex                         \<comment> \<open>\<^verbatim>\<open>/api/reindex\<close>, no body\<close>
  | PostModelsCurrent string            \<comment> \<open>\<^verbatim>\<open>/api/models/current {model_name}\<close>\<close>
  | PostAiStream string bool string     \<comment> \<open>\<^verbatim>\<open>/api/ai/stream {prompt, use_context, model}\<close>\<close>
  | PostAiGenerate string bool string   \<comment> \<open>\<^verbatim>\<open>/api/ai/generate {prompt, use_context, model}\<close>\<close>
  | PostAiExpand string string string   \<comment> \<open>\<^verbatim>\<open>/api/ai/expand {text, context, model}\<close>\<close>
  | PostAiSummarize string string       \<comment> \<open>\<^verbatim>\<open>/api/ai/summarize {text, model}\<close>\<close>
  | PostAiRephrase string string string \<comment> \<open>\<^verbatim>\<open>/api/ai/rephrase {text, tone, model}\<close>\<close>
  | PostPreview string                  \<comment> \<open>\<^verbatim>\<open>/api/preview {content}\<close>\<close>

text \<open>
  What \<^verbatim>\<open>console.error\<close> receives after its label: the \<^verbatim>\<open>SyntaxError\<close> of
  \<^verbatim>\<open>JSON.parse\<close>, another exception with its message, or a text of the reply.
\<close>

datatype logged = SyntaxError | Error string | Text string

datatype effect =
    Fetch request
  | Alert string
  | Confirm string
  | ConsoleError logged

text \<open>
  Replies. Every reply may carry an \<^verbatim>\<open>error\<close> text; the other fields are the ones the
  client reads. A reply with more fields is an extension of the record.
\<close>

record api_result =
  error :: "string option"

record status_result = api_result +
  success :: bool                       \<comment> \<open>truthiness of \<^verbatim>\<open>result.success\<close>\<close>

record reindex_result = status_result +
  processed :: "int option"

record 'i similar_result = api_result +
  similar :: "'i list option"

record similar_item =
  file_path :: string
  similarity :: real                    \<comment> \<open>the number written in the reply\<close>
  snippet :: string

record preview_result =
  html :: "string option"

record generate_result = api_result +
  response :: string
  context_used :: "int option"

record transform_result = api_result +
  expanded_text :: "string option"
  summary :: "string option"
  rephrased_text :: "string option"

text \<open>One entry of the related-notes panel, as \<^verbatim>\<open>updateSimilarContentDisplay\<close> builds it.\<close>

record similar_row =
  row_file :: string                    \<comment> \<open>text of \<^verbatim>\<open>.similar-item-file\<close>\<close>
  row_score :: string                   \<comment> \<open>text of \<^verbatim>\<open>.similar-item-score\<close>\<close>
  row_class :: string                   \<comment> \<open>class added to the score element\<close>
  row_snippet :: string                 \<comment> \<open>text of \<^verbatim>\<open>.similar-item-snippet\<close>\<close>
  row_opens :: string                   \<comment> \<open>argument of \<^verbatim>\<open>openSimilarFile\<close> on click\<close>

record model_descriptor =
  model_name :: string
  description :: string
  size :: string
  max_seq_length :: int

text \<open>
  The CodeMirror document: the text before the selection, the selection and the text after
  it. \<^verbatim>\<open>this.editor\<close> and \<^verbatim>\<open>this.codeMirror\<close> are created together by
  \<^verbatim>\<open>initEditor\<close>, so one optional field stands for both.
\<close>

record document =
  before :: string
  selection :: string
  after :: string

definition getValue :: "document \<Rightarrow> string" where
  "getValue d = before d @ selection d @ after d"

definition replaceSelection :: "string \<Rightarrow> document \<Rightarrow> document" where
  "replaceSelection t d = d\<lparr>before := before d @ t, selection := []\<rparr>"

text \<open>
  The fields of \<^verbatim>\<open>this\<close> and of the page that the modelled methods read or write, and
  the trace of what they send and show.
\<close>

record app =
  currentFile :: "string option"        \<comment> \<open>\<^verbatim>\<open>this.currentFile.path\<close>\<close>
  editor :: "document option"
  vaultName :: "string option"
  unsavedChanges :: bool
  availableModels :: "model_descriptor list"
  currentModel :: "string option"
  selectedText :: string
  similarityTimeout :: bool             \<comment> \<open>a timer of the debounced search is set\<close>
  preview :: string                     \<comment> \<open>\<^verbatim>\<open>innerHTML\<close> of \<^verbatim>\<open>#preview\<close>\<close>
  similarContent :: "similar_row list"  \<comment> \<open>\<^verbatim>\<open>#similar-content\<close>; empty: the placeholder\<close>
  reindexText :: string                 \<comment> \<open>\<^verbatim>\<open>#reindex\<close>\<close>
  reindexDisabled :: bool
  selectorValue :: "string option"      \<comment> \<open>\<^verbatim>\<open>#model-selector\<close>\<close>
  selectorDisabled :: bool
  modelInfo :: "model_descriptor option" \<comment> \<open>\<^verbatim>\<open>#model-info\<close>\<close>
  promptValue :: string                 \<comment> \<open>\<^verbatim>\<open>#ai-prompt\<close>\<close>
  useContext :: bool                    \<comment> \<open>\<^verbatim>\<open>#ai-use-context\<close>\<close>
  aiModel :: string                     \<comment> \<open>\<^verbatim>\<open>#ai-model-selector\<close>\<close>
  generateDisabled :: bool              \<comment> \<open>\<^verbatim>\<open>#ai-generate\<close>\<close>
  generateText :: string
  responseContent :: string             \<comment> \<open>\<^verbatim>\<open>.ai-response-content\<close>\<close>
  responseClass :: string
  responseMeta :: string                \<comment> \<open>\<^verbatim>\<open>.ai-response-meta\<close>\<close>
  trace :: "effect list"

definition emit :: "effect \<Rightarrow> app \<Rightarrow> app" where
  "emit e a = a\<lparr>trace := trace a @ [e]\<rparr>"

definition requests :: "app \<Rightarrow> request list" where
  "requests a = [r. Fetch r \<leftarrow> trace a]"

subsection \<open>Related notes\<close>

text \<open>
  \<^verbatim>\<open>updateSimilarContentDisplay(similarItems)\<close>: one row per item, in the order of the
  list. The percentage is \<^verbatim>\<open>Math.round(item.similarity * 100)\<close>: \<^verbatim>\<open>item.similarity\<close> is
  the double that \<^verbatim>\<open>JSON.parse\<close> read from the number written in the reply, and the
  product is the product of doubles. Its class comes from \<^verbatim>\<open>getConfidenceClass\<close>.
\<close>

definition similar_row_of :: "'a similar_item_scheme \<Rightarrow> similar_row" where
  "similar_row_of item =
     (let percentage = Math_round (js_times (to_double (similarity item)) 100) in
      \<lparr>row_file = file_path item,
       row_score = js_int_string percentage @ ''%'',
       row_class = getConfidenceClass percentage,
       row_snippet = snippet item,
       row_opens = file_path item\<rparr>)"

definition updateSimilarContentDisplay :: "'a similar_item_scheme list \<Rightarrow> app \<Rightarrow> app" where
  "updateSimilarContentDisplay similarItems a =
     a\<lparr>similarContent := map similar_row_of similarItems\<rparr>"

text \<open>
  \<^verbatim>\<open>searchSimilarContent()\<close>. The backend is a function from the request to what the
  \<^verbatim>\<open>fetch\<close> gives. A reply without \<^verbatim>\<open>similar\<close> and a failed request both clear the
  panel.
\<close>

definition searchSimilarContent ::
  "(request \<Rightarrow> ('a similar_item_scheme, 'b) similar_result_scheme fetched) \<Rightarrow> app \<Rightarrow> app" where
  "searchSimilarContent backend a =
     (case (currentFile a, editor a) of
        (Some file, Some ed) \<Rightarrow>
          (let content = js_trim (getValue ed) in
           if length content < 50 then updateSimilarContentDisplay ([] :: 'a similar_item_scheme list) a
           else
             (let req = PostSimilar content file 5;
                  a1 = emit (Fetch req) a
              in case backend req of
                   Json result \<Rightarrow>
                     (case similar result of
                        Some items \<Rightarrow> updateSimilarContentDisplay items a1
                      | None \<Rightarrow>
                          updateSimilarContentDisplay ([] :: 'a similar_item_scheme list)
                            (emit (ConsoleError (Text (js_string_of (error result)))) a1))
                 | Rejected msg \<Rightarrow>
                     updateSimilarContentDisplay ([] :: 'a similar_item_scheme list)
                       (emit (ConsoleError (Error msg)) a1)))
      | _ \<Rightarrow> updateSimilarContentDisplay ([] :: 'a similar_item_scheme list) a)"

subsection \<open>Rebuilding the index and changing the embedding model\<close>

text \<open>
  \<^verbatim>\<open>reindexVault()\<close>. The button is relabelled while the request runs and restored in the
  \<^verbatim>\<open>finally\<close> block. \<^verbatim>\<open>searchSimilarContent\<close> is started without \<^verbatim>\<open>await\<close>; it
  writes only the related-notes panel, so running it before the \<^verbatim>\<open>finally\<close> block gives
  the same state.
\<close>

definition reindexVault ::
  "(request \<Rightarrow> 'r reindex_result_scheme fetched) \<Rightarrow>
   (request \<Rightarrow> ('a similar_item_scheme, 'b) similar_result_scheme fetched) \<Rightarrow> app \<Rightarrow> app" where
  "reindexVault reindex_backend similar_backend a =
     (if \<not> truthy (vaultName a) then emit (Alert ''No vault selected'') a
      else
        (let originalText = reindexText a;
             a1 = a\<lparr>reindexText := ''Indexing...'', reindexDisabled := True\<rparr>;
             a2 = emit (Fetch PostReindex) a1;
             a3 = (case reindex_backend PostReindex of
                     Json result \<Rightarrow>
                       if success result then
                         (let a' = emit (Alert (''Successfully indexed ''
                                      @ js_count_string (processed result) @ '' files!'')) a2
                          in if currentFile a' \<noteq> None \<and> editor a' \<noteq> None
                             then searchSimilarContent similar_backend a' else a')
                       else emit (Alert (''Error indexing vault: '' @ js_string_of (error result))) a2
                   | Rejected msg \<Rightarrow> emit (Alert (''Error indexing vault: '' @ msg)) a2)
         in a3\<lparr>reindexText := originalText, reindexDisabled := False\<rparr>))"

text \<open>\<^verbatim>\<open>updateModelInfo()\<close>: the descriptor of the current model, when it is listed.\<close>

definition updateModelInfo :: "app \<Rightarrow> app" where
  "updateModelInfo a =
     a\<lparr>modelInfo := find (\<lambda>m. Some (model_name m) = currentModel a) (availableModels a)\<rparr>"

text \<open>
  \<^verbatim>\<open>changeModel(modelName)\<close>. \<^verbatim>\<open>confirm_answer\<close> is what the user answers to the
  \<^verbatim>\<open>confirm\<close> dialog.
\<close>

definition changeModel ::
  "string \<Rightarrow> (request \<Rightarrow> 's status_result_scheme fetched) \<Rightarrow> bool \<Rightarrow>
   (request \<Rightarrow> 'r reindex_result_scheme fetched) \<Rightarrow>
   (request \<Rightarrow> ('a similar_item_scheme, 'b) similar_result_scheme fetched) \<Rightarrow> app \<Rightarrow> app" where
  "changeModel modelName model_backend confirm_answer reindex_backend similar_backend a =
     (if modelName = [] \<or> Some modelName = currentModel a then a
      else
        (let a1 = a\<lparr>selectorDisabled := True\<rparr>;
             req = PostModelsCurrent modelName;
             a2 = emit (Fetch req) a1;
             a3 = (case model_backend req of
                     Json result \<Rightarrow>
                       if success result then
                         (let a' = updateModelInfo (a2\<lparr>currentModel := Some modelName\<rparr>)
                          in if truthy (vaultName a') then
                               (let a'' = emit (Confirm (''Model changed to '' @ modelName
                                  @ ''. Would you like to reindex the vault now to use the new embeddings?'')) a'
                                in if confirm_answer
                                   then reindexVault reindex_backend similar_backend a'' else a'')
                             else a')
                       else
                         (let a' = emit (Alert (''Error changing model: ''
                                      @ js_string_of (error result))) a2
                          in a'\<lparr>selectorValue := currentModel a'\<rparr>)
                   | Rejected msg \<Rightarrow>
                       (let a' = emit (Alert (''Error changing model: '' @ msg)) a2
                        in a'\<lparr>selectorValue := currentModel a'\<rparr>))
         in a3\<lparr>selectorDisabled := False\<rparr>))"

subsection \<open>Generation: the streamed reply\<close>

text \<open>
  The object a \<^verbatim>\<open>data: \<close> line carries, by its \<^verbatim>\<open>type\<close> field: the context count
  (\<^verbatim>\<open>items\<close>), a token (\<^verbatim>\<open>content\<close>), the end marker, an error (\<^verbatim>\<open>message\<close>), or
  an object of another type, which the reader skips.
\<close>

datatype sse_data = ContextEv int | TokenEv string | DoneEv | ErrorEv string | OtherEv

text \<open>
  What \<^verbatim>\<open>fetch('/api/ai/stream')\<close> gives: an exception, a reply that is not
  \<^verbatim>\<open>ok\<close>, or a body read chunk by chunk; the body ends normally or \<^verbatim>\<open>reader.read()\<close>
  throws after the chunks. A chunk is the text \<^verbatim>\<open>decoder.decode(value, {stream: true})\<close>
  yields for it.
\<close>

datatype stream_reply = FetchFailed string | NotOk | Body "string list" "string option"

text \<open>The local variables of the read loop, with the page.\<close>

record reader =
  buffer :: string
  contextCount :: int
  page :: app

text \<open>
  The branch on \<^verbatim>\<open>data.type\<close>. The \<^verbatim>\<open>throw\<close> of the \<^verbatim>\<open>error\<close> branch is inside the
  \<^verbatim>\<open>try\<close> whose \<^verbatim>\<open>catch\<close> logs to the console, so it ends there.
\<close>

fun handle_data :: "sse_data \<Rightarrow> reader \<Rightarrow> reader" where
  "handle_data (ContextEv items) r = r\<lparr>contextCount := items\<rparr>"
| "handle_data (TokenEv content) r =
     r\<lparr>page := (page r)\<lparr>responseContent := responseContent (page r) @ content\<rparr>\<rparr>"
| "handle_data DoneEv r =
     r\<lparr>page := (page r)\<lparr>responseClass := ''ai-response-content'',
        responseMeta :=
          (if contextCount r > 0
           then ''Used context from '' @ js_int_string (contextCount r) @ '' notes''
           else ''No context used'')\<rparr>\<rparr>"
| "handle_data (ErrorEv message) r = r\<lparr>page := emit (ConsoleError (Error message)) (page r)\<rparr>"
| "handle_data OtherEv r = r"

text \<open>
  One line of the body. \<^verbatim>\<open>JSON_parse\<close> stands for \<^verbatim>\<open>JSON.parse\<close> followed by the read
  of \<^verbatim>\<open>data.type\<close>: \<^term>\<open>None\<close> when either throws, which the same \<^verbatim>\<open>catch\<close> logs.
\<close>

definition handle_line :: "(string \<Rightarrow> sse_data option) \<Rightarrow> string \<Rightarrow> reader \<Rightarrow> reader" where
  "handle_line JSON_parse line r =
     (if startsWith line ''data: '' then
        (case JSON_parse (drop 6 line) of
           Some data \<Rightarrow> handle_data data r
         | None \<Rightarrow> r\<lparr>page := emit (ConsoleError SyntaxError) (page r)\<rparr>)
      else r)"

text \<open>
  One turn of \<^verbatim>\<open>while (true)\<close> for a chunk: the chunk is appended to the buffer, the
  buffer is split at line feeds, the last piece (\<^verbatim>\<open>lines.pop()\<close>) becomes the buffer and
  the other pieces are handled in order. The loop ends when the chunks do.
\<close>

definition read_chunk :: "(string \<Rightarrow> sse_data option) \<Rightarrow> string \<Rightarrow> reader \<Rightarrow> reader" where
  "read_chunk JSON_parse chunk r =
     (let lines = split_lines (buffer r @ chunk)
      in fold (handle_line JSON_parse) (butlast lines) (r\<lparr>buffer := last lines\<rparr>))"

fun read_loop :: "(string \<Rightarrow> sse_data option) \<Rightarrow> string list \<Rightarrow> reader \<Rightarrow> reader" where
  "read_loop JSON_parse [] r = r"
| "read_loop JSON_parse (chunk # chunks) r = read_loop JSON_parse chunks (read_chunk JSON_parse chunk r)"

text \<open>The outer \<^verbatim>\<open>catch (error)\<close> of both branches of \<^verbatim>\<open>generateAIResponse\<close>.\<close>

definition show_error :: "string \<Rightarrow> app \<Rightarrow> app" where
  "show_error message a =
     a\<lparr>responseContent := ''Error: '' @ message,
       responseClass := ''ai-response-content error'',
       responseMeta := []\<rparr>"

definition generate_streaming ::
  "(string \<Rightarrow> sse_data option) \<Rightarrow> (request \<Rightarrow> stream_reply) \<Rightarrow> string \<Rightarrow> app \<Rightarrow> app" where
  "generate_streaming JSON_parse stream_backend prompt a =
     (let a1 = a\<lparr>responseContent := ''Thinking...'',
                  responseClass := ''ai-response-content streaming''\<rparr>;
          req = PostAiStream prompt (useContext a) (aiModel a);
          a2 = emit (Fetch req) a1
      in case stream_backend req of
           FetchFailed message \<Rightarrow> show_error message a2
         | NotOk \<Rightarrow> show_error ''Failed to generate response'' a2
         | Body chunks failure \<Rightarrow>
             (let r = read_loop JSON_parse chunks
                        \<lparr>buffer = [], contextCount = 0, page = a2\<lparr>responseContent := []\<rparr>\<rparr>
              in case failure of
                   None \<Rightarrow> page r
                 | Some message \<Rightarrow> show_error message (page r)))"

subsection \<open>Generation: the single reply\<close>

definition generate_plain ::
  "(request \<Rightarrow> 'g generate_result_scheme fetched) \<Rightarrow> string \<Rightarrow> app \<Rightarrow> app" where
  "generate_plain generate_backend prompt a =
     (let a1 = a\<lparr>responseContent := ''Generating response...''\<rparr>;
          req = PostAiGenerate prompt (useContext a) (aiModel a);
          a2 = emit (Fetch req) a1
      in case generate_backend req of
           Rejected message \<Rightarrow> show_error message a2
         | Json result \<Rightarrow>
             if truthy (error result) then show_error (js_string_of (error result)) a2
             else
               a2\<lparr>responseContent := response result,
                  responseClass := ''ai-response-content'',
                  responseMeta :=
                    (case context_used result of
                       Some n \<Rightarrow>
                         if n > 0 then ''Used context from '' @ js_int_string n @ '' notes''
                         else ''No context used''
                     | None \<Rightarrow> ''No context used'')\<rparr>)"

text \<open>
  \<^verbatim>\<open>generateAIResponse(useStreaming = true)\<close>: nothing happens for a blank prompt;
  otherwise the button is disabled, the previous reply cleared, one of the two branches
  run, and the button enabled again.
\<close>

definition generateAIResponse ::
  "bool \<Rightarrow> (string \<Rightarrow> sse_data option) \<Rightarrow> (request \<Rightarrow> stream_reply) \<Rightarrow>
   (request \<Rightarrow> 'g generate_result_scheme fetched) \<Rightarrow> app \<Rightarrow> app" where
  "generateAIResponse useStreaming JSON_parse stream_backend generate_backend a =
     (let prompt = js_trim (promptValue a)
      in if prompt = [] then a
         else
           (let a1 = a\<lparr>generateDisabled := True, generateText := ''Generating...'',
                        responseContent := [],
                        responseClass := ''ai-response-content loading'',
                        responseMeta := []\<rparr>;
                a2 = (if useStreaming then generate_streaming JSON_parse stream_backend prompt a1
                      else generate_plain generate_backend prompt a1)
            in a2\<lparr>generateDisabled := False, generateText := ''Generate''\<rparr>))"

subsection \<open>Transforming the selected text\<close>

text \<open>The \<^verbatim>\<open>switch (action)\<close> of \<^verbatim>\<open>handleContextAction\<close>: endpoint and payload.\<close>

definition transform_request :: "string \<Rightarrow> string \<Rightarrow> string \<Rightarrow> string \<Rightarrow> request option" where
  "transform_request action text context model =
     (if action = ''expand'' then Some (PostAiExpand text context model)
      else if action = ''summarize'' then Some (PostAiSummarize text model)
      else if action = ''rephrase-professional'' then Some (PostAiRephrase text ''professional'' model)
      else if action = ''rephrase-casual'' then Some (PostAiRephrase text ''casual'' model)
      else if action = ''rephrase-academic'' then Some (PostAiRephrase text ''academic'' model)
      else None)"

text \<open>The field of the reply the replacement is taken from.\<close>

definition result_text_of :: "string \<Rightarrow> 't transform_result_scheme \<Rightarrow> string option" where
  "result_text_of action result =
     (if action = ''expand'' then expanded_text result
      else if action = ''summarize'' then summary result
      else if startsWith action ''rephrase'' then rephrased_text result
      else None)"

text \<open>
  \<^verbatim>\<open>updatePreview()\<close>: the text of the editor is posted and the \<^verbatim>\<open>html\<close> of the reply,
  when it has one, becomes the preview. The method is started without \<^verbatim>\<open>await\<close>: the
  request leaves at once, and the reply, handled later, writes the preview or the console
  only.
\<close>

definition updatePreview :: "(request \<Rightarrow> 'p preview_result_scheme fetched) \<Rightarrow> app \<Rightarrow> app" where
  "updatePreview preview_backend a =
     (case editor a of
        None \<Rightarrow> a
      | Some d \<Rightarrow>
          (let req = PostPreview (getValue d);
               a1 = emit (Fetch req) a
           in case preview_backend req of
                Json result \<Rightarrow>
                  (case html result of Some h \<Rightarrow> a1\<lparr>preview := h\<rparr> | None \<Rightarrow> a1)
              | Rejected message \<Rightarrow> emit (ConsoleError (Error message)) a1))"

text \<open>
  \<^verbatim>\<open>debouncedSimilaritySearch()\<close>: a timer that is set is cleared and a new one set. What
  runs when it fires, a second later, is a call of \<^verbatim>\<open>searchSimilarContent\<close> of its own.
\<close>

definition debouncedSimilaritySearch :: "app \<Rightarrow> app" where
  "debouncedSimilaritySearch a = a\<lparr>similarityTimeout := True\<rparr>"

text \<open>
  The \<^verbatim>\<open>change\<close> listener that \<^verbatim>\<open>initEditor\<close> registers on the editor. CodeMirror calls
  it inside every call that changes the document. Its \<^verbatim>\<open>updateUI\<close> writes the toolbar
  only, which is not part of the state here, and sends nothing.
\<close>

definition on_change :: "(request \<Rightarrow> 'p preview_result_scheme fetched) \<Rightarrow> app \<Rightarrow> app" where
  "on_change preview_backend a =
     debouncedSimilaritySearch (updatePreview preview_backend (a\<lparr>unsavedChanges := True\<rparr>))"

text \<open>
  \<^verbatim>\<open>handleContextAction(action)\<close>. \<^verbatim>\<open>hideContextMenu\<close> and \<^verbatim>\<open>updateUI\<close> write the menu
  and the toolbar only, which are not part of the state here. A reply whose \<^verbatim>\<open>error\<close> is
  set is thrown and alerted like a failed request. \<^verbatim>\<open>codeMirror.replaceSelection\<close> changes
  the document and so runs the \<^verbatim>\<open>change\<close> listener.
\<close>

definition handleContextAction ::
  "string \<Rightarrow> (request \<Rightarrow> 't transform_result_scheme fetched) \<Rightarrow>
   (request \<Rightarrow> 'p preview_result_scheme fetched) \<Rightarrow> app \<Rightarrow> app" where
  "handleContextAction action transform_backend preview_backend a =
     (if js_trim (selectedText a) = [] then a
      else
        (let model = aiModel a;
             context = (case editor a of Some d \<Rightarrow> getValue d | None \<Rightarrow> [])
         in case transform_request action (selectedText a) context model of
              None \<Rightarrow> a
            | Some req \<Rightarrow>
                (let a1 = emit (Fetch req) a
                 in case transform_backend req of
                      Rejected message \<Rightarrow> emit (Alert (''Error processing text: '' @ message)) a1
                    | Json result \<Rightarrow>
                        if truthy (error result)
                        then emit (Alert (''Error processing text: '' @ js_string_of (error result))) a1
                        else
                          (case (editor a1, result_text_of action result) of
                             (Some d, Some resultText) \<Rightarrow>
                               if resultText \<noteq> []
                               then (on_change preview_backend
                                       (a1\<lparr>editor := Some (replaceSelection resultText d)\<rparr>))
                                      \<lparr>unsavedChanges := True\<rparr>
                               else a1
                           | _ \<Rightarrow> a1))))"

subsection \<open>The backend's side of the interface\<close>

text \<open>
  The server behind \<^verbatim>\<open>/api/...\<close> is not part of the client sources. The shapes below are
  the ones the specification's interface table lists, written as extensions of the records
  the client reads, so that a reply of the listed shape is a possible input of the client.
\<close>

text \<open>
  Modelled from the spec: an entry of the similarity search output
  \<^verbatim>\<open>{file_path, similarity, snippet, confidence_bucket}\<close>.
\<close>

record spec_similar_item = similar_item +
  confidence_bucket :: string

text \<open>
  Modelled from the spec: the similarity search output \<^verbatim>\<open>{results: [...]}\<close>.
\<close>

record 'i spec_similar_result = "'i similar_result" +
  results :: "'i list"

text \<open>
  Modelled from the spec: the rebuild result, with the count of chunks processed and the
  count of chunks that failed.
\<close>

record rebuild_report = reindex_result +
  failed :: int

text \<open>
  Modelled from the spec: the transform output \<^verbatim>\<open>{result_text}\<close>.
\<close>

record spec_transform_result = transform_result +
  result_text :: string

text \<open>
  Modelled from the spec: the terminal states of a generation request that the caller does
  not cancel (the client has no way to cancel one).
\<close>

datatype outcome = Completed | Failed string

text \<open>
  Modelled from the spec: the events the Generation Orchestrator, which is not part of the
  client sources, sends for one request. The context count comes first, then one token
  event per token in arrival order, then the end marker or the error with its message.
\<close>

definition orchestrator_events :: "int \<Rightarrow> string list \<Rightarrow> outcome \<Rightarrow> sse_data list" where
  "orchestrator_events count tokens out =
     ContextEv count # map TokenEv tokens
       @ [case out of Completed \<Rightarrow> DoneEv | Failed message \<Rightarrow> ErrorEv message]"

text \<open>
  The grammar \<^verbatim>\<open>context token* (done | error)\<close> as a recogniser, independent of how a
  stream was produced.
\<close>

fun tokens_then_end :: "sse_data list \<Rightarrow> bool" where
  "tokens_then_end [DoneEv] = True"
| "tokens_then_end [ErrorEv message] = True"
| "tokens_then_end (TokenEv content # es) = tokens_then_end es"
| "tokens_then_end es = False"

fun ordered_stream :: "sse_data list \<Rightarrow> bool" where
  "ordered_stream (ContextEv count # es) = tokens_then_end es"
| "ordered_stream es = False"

text \<open>
  The frame the reader expects for an event: a line \<^verbatim>\<open>data: \<close> followed by the encoded
  object, and a blank line. \<^verbatim>\<open>enc\<close> stands for the server's JSON encoder.
\<close>

definition sse_frame :: "(sse_data \<Rightarrow> string) \<Rightarrow> sse_data \<Rightarrow> string" where
  "sse_frame enc e = ''data: '' @ enc e @ [CHR 0x0A, CHR 0x0A]"

subsection \<open>Observations and example data\<close>

text \<open>The texts shown by \<^verbatim>\<open>alert\<close>, in order.\<close>

definition alerts :: "app \<Rightarrow> string list" where
  "alerts a = [m. Alert m \<leftarrow> trace a]"

text \<open>A backend that gives the same reply to every request.\<close>

fun replies :: "'r \<Rightarrow> request \<Rightarrow> 'r" where
  "replies reply req = reply"

text \<open>
  A state of the page with a vault and a note open, a short text in the editor whose middle
  part is selected, and nothing sent yet.
\<close>

definition example_app :: app where
  "example_app =
     \<lparr>currentFile = Some ''notes/today.md'',
      editor = Some \<lparr>before = ''# Today'', selection = ''a plan'', after = '' for the week''\<rparr>,
      vaultName = Some ''vault'',
      unsavedChanges = False,
      availableModels = [],
      currentModel = Some ''all-MiniLM-L6-v2'',
      selectedText = ''a plan'',
      similarityTimeout = False,
      preview = ''<h1>Today</h1>'',
      similarContent = [],
      reindexText = ''Reindex'',
      reindexDisabled = False,
      selectorValue = Some ''all-MiniLM-L6-v2'',
      selectorDisabled = False,
      modelInfo = None,
      promptValue = '' What did I plan? '',
      useContext = True,
      aiModel = ''llama3'',
      generateDisabled = False,
      generateText = ''Generate'',
      responseContent = [],
      responseClass = ''ai-response-content'',
      responseMeta = [],
      trace = []\<rparr>"

text \<open>A note of more than fifty characters, with blanks around it.\<close>

definition long_note :: string where
  "long_note = ''  Plans for the week: write the report, review the budget, call the supplier.  ''"

text \<open>
  An encoder of events as JSON objects for the examples (texts without characters that
  need escaping), and \<^verbatim>\<open>JSON.parse\<close> on the objects the examples use.
\<close>

definition quoted :: "string \<Rightarrow> string" where
  "quoted s = CHR 0x22 # s @ [CHR 0x22]"

fun json_of :: "sse_data \<Rightarrow> string" where
  "json_of (ContextEv items) =
     ''{'' @ quoted ''type'' @ '': '' @ quoted ''context'' @ '', ''
       @ quoted ''items'' @ '': '' @ js_int_string items @ ''}''"
| "json_of (TokenEv content) =
     ''{'' @ quoted ''type'' @ '': '' @ quoted ''token'' @ '', ''
       @ quoted ''content'' @ '': '' @ quoted content @ ''}''"
| "json_of DoneEv = ''{'' @ quoted ''type'' @ '': '' @ quoted ''done'' @ ''}''"
| "json_of (ErrorEv message) =
     ''{'' @ quoted ''type'' @ '': '' @ quoted ''error'' @ '', ''
       @ quoted ''message'' @ '': '' @ quoted message @ ''}''"
| "json_of OtherEv = ''{'' @ quoted ''type'' @ '': '' @ quoted ''ping'' @ ''}''"

definition example_parse :: "string \<Rightarrow> sse_data option" where
  "example_parse s =
     find (\<lambda>e. json_of e = s)
       [ContextEv 2, TokenEv ''Hel'', TokenEv ''lo'', DoneEv, ErrorEv ''model not found'']"

section \<open>Properties\<close>

subsection \<open>Auxiliary facts\<close>

lemma confidence_ranges:
  "(getConfidenceClass p = ''confidence-very-low'' \<longleftrightarrow> p < 20) \<and>
   (getConfidenceClass p = ''confidence-low'' \<longleftrightarrow> 20 \<le> p \<and> p \<le> 39) \<and>
   (getConfidenceClass p = ''confidence-medium'' \<longleftrightarrow> 40 \<le> p \<and> p \<le> 59) \<and>
   (getConfidenceClass p = ''confidence-high'' \<longleftrightarrow> 60 \<le> p \<and> p \<le> 79) \<and>
   (getConfidenceClass p = ''confidence-very-high'' \<longleftrightarrow> 80 \<le> p)"
  by (simp add: getConfidenceClass_def)

lemma Math_round_less: "Math_round x < k \<longleftrightarrow> x < of_int k - 1 / 2"
  unfolding Math_round_def by (simp add: floor_less_iff) linarith

lemma Math_round_ge: "k \<le> Math_round x \<longleftrightarrow> of_int k - 1 / 2 \<le> x"
  unfolding Math_round_def by (simp add: le_floor_iff) linarith

lemma Math_round_le: "Math_round x \<le> k \<longleftrightarrow> x < of_int k + 1 / 2"
  unfolding Math_round_def by (simp add: floor_le_iff) linarith

lemma row_class_similar_row_of:
  "row_class (similar_row_of item)
     = getConfidenceClass (Math_round (js_times (to_double (similarity item)) 100))"
  by (simp add: similar_row_of_def Let_def)

text \<open>Evaluating the double arithmetic of a row on numerals.\<close>

lemmas double_simps =
  similar_row_of_def Let_def Math_round_def js_times_def to_double_def binade_def
  bit_length.simps round_half_even_def getConfidenceClass_def js_int_string_def digit_char_def

text \<open>
  Doubles of the model against the doubles of the program: the double of 0.1, the score
  0.595 whose product with 100 is 59.5, the score 0.145 whose product falls below 14.5, two
  ties, and a number that is a double.
\<close>

lemma double_examples:
  "to_double (1 / 10) = 3602879701896397 / 36028797018963968"
  "to_double (595 / 1000) = 2679641778285445 / 4503599627370496"
  "js_times (to_double (595 / 1000)) 100 = 119 / 2"
  "js_times (to_double (145 / 1000)) 100 = 8162774324609023 / 562949953421312"
  "Math_round (js_times (to_double (145 / 1000)) 100) = 14"
  "to_double 9007199254740993 = 9007199254740992"
  "to_double 9007199254740995 = 9007199254740996"
  "to_double (- 1 / 4) = - 1 / 4"
  by (simp_all add: js_times_def to_double_def binade_def bit_length.simps round_half_even_def
      Math_round_def)

text \<open>
  The exponent is the one of the binade of a normal number, and the double of a number is
  within half a unit in the last place of it.
\<close>

lemma bit_length_nonneg: "0 \<le> bit_length n"
proof (induction n rule: bit_length.induct)
  case (1 n)
  then show ?case by (subst bit_length.simps) simp
qed

lemma bit_length_bounds:
  "0 < n \<Longrightarrow> 2 ^ nat (bit_length n - 1) \<le> n \<and> n < 2 ^ nat (bit_length n)"
proof (induction n rule: bit_length.induct)
  case (1 n)
  have bl: "bit_length n = 1 + bit_length (n div 2)"
    using "1.prems" by (subst bit_length.simps) simp
  show ?case
  proof (cases "n = 1")
    case True
    have "bit_length (0::int) = 0" by (subst bit_length.simps) simp
    with True bl show ?thesis by simp
  next
    case False
    with "1.prems" have h: "0 < n div 2" by simp
    have IH: "2 ^ nat (bit_length (n div 2) - 1) \<le> n div 2"
      "n div 2 < 2 ^ nat (bit_length (n div 2))"
      using "1.IH" "1.prems" h by simp_all
    have p: "0 < bit_length (n div 2)"
    proof -
      have "bit_length (n div 2) = 1 + bit_length (n div 2 div 2)"
        using h by (subst bit_length.simps) simp
      then show ?thesis using bit_length_nonneg [of "n div 2 div 2"] by simp
    qed
    have e1: "nat (bit_length n - 1) = Suc (nat (bit_length (n div 2) - 1))"
      using p bl by simp
    have e2: "nat (bit_length n) = Suc (nat (bit_length (n div 2)))"
      using p bl by simp
    have lo: "2 * 2 ^ nat (bit_length (n div 2) - 1) \<le> n"
      using IH(1) by linarith
    have hi: "n < 2 * 2 ^ nat (bit_length (n div 2))"
      using IH(2) by linarith
    show ?thesis
      unfolding e1 e2 using lo hi by simp
  qed
qed

lemma binade_bounds:
  assumes normal: "2 powi (- 1022) \<le> \<bar>x\<bar>"
  shows "2 powi binade x \<le> \<bar>x\<bar> \<and> \<bar>x\<bar> < 2 powi (binade x + 1)"
proof (cases "1 \<le> \<bar>x\<bar>")
  case True
  let ?f = "\<lfloor>\<bar>x\<bar>\<rfloor>"
  let ?b = "bit_length ?f"
  have f: "0 < ?f" using True by simp
  have b: "2 ^ nat (?b - 1) \<le> ?f" "?f < 2 ^ nat ?b"
    using bit_length_bounds [OF f] by simp_all
  have bpos: "1 \<le> ?b"
  proof -
    have "?b = 1 + bit_length (?f div 2)" using f by (subst bit_length.simps) simp
    then show ?thesis using bit_length_nonneg [of "?f div 2"] by simp
  qed
  have e: "binade x = ?b - 1" using True by (simp add: binade_def)
  have lo: "(2::real) ^ nat (?b - 1) \<le> \<bar>x\<bar>"
  proof -
    have "(2::real) ^ nat (?b - 1) = of_int (2 ^ nat (?b - 1))" by simp
    also have "\<dots> \<le> of_int ?f" using b(1) by (simp only: of_int_le_iff)
    also have "\<dots> \<le> \<bar>x\<bar>" by simp
    finally show ?thesis .
  qed
  have hi: "\<bar>x\<bar> < (2::real) ^ nat ?b"
  proof -
    have "?f + 1 \<le> 2 ^ nat ?b" using b(2) by simp
    then have "of_int (?f + 1) \<le> (of_int (2 ^ nat ?b) :: real)" by (simp only: of_int_le_iff)
    then have h1: "(of_int ?f :: real) + 1 \<le> 2 ^ nat ?b" by simp
    have h2: "\<bar>x\<bar> < of_int ?f + 1" by linarith
    from h1 h2 show ?thesis by linarith
  qed
  have p1: "2 powi (?b - 1) = (2::real) ^ nat (?b - 1)"
    using bpos by (simp add: power_int_def)
  have p2: "2 powi (?b - 1 + 1) = (2::real) ^ nat ?b"
    using bpos by (simp add: power_int_def)
  show ?thesis unfolding e p1 p2 using lo hi by simp
next
  case False
  then have small: "\<bar>x\<bar> < 1" by simp
  have pos: "0 < \<bar>x\<bar>"
  proof -
    have "(0::real) < 2 powi (- 1022)" by simp
    with normal show ?thesis by linarith
  qed
  let ?y = "1 / \<bar>x\<bar>"
  let ?m = "\<lceil>?y\<rceil> - 1"
  let ?k = "bit_length ?m"
  have y: "1 < ?y" using small pos by simp
  have m: "0 < ?m" using y by linarith
  have my: "of_int ?m < ?y" "?y \<le> of_int ?m + 1" by linarith+
  have k: "2 ^ nat (?k - 1) \<le> ?m" "?m < 2 ^ nat ?k"
    using bit_length_bounds [OF m] by simp_all
  have kpos: "1 \<le> ?k"
  proof -
    have "?k = 1 + bit_length (?m div 2)" using m by (subst bit_length.simps) simp
    then show ?thesis using bit_length_nonneg [of "?m div 2"] by simp
  qed
  have yhi: "?y \<le> (2::real) ^ nat ?k"
  proof -
    have "?m + 1 \<le> 2 ^ nat ?k" using k(2) by simp
    then have "of_int (?m + 1) \<le> (of_int (2 ^ nat ?k) :: real)" by (simp only: of_int_le_iff)
    then have h1: "(of_int ?m :: real) + 1 \<le> 2 ^ nat ?k" by simp
    from h1 my(2) show ?thesis by linarith
  qed
  have ylo: "(2::real) ^ nat (?k - 1) < ?y"
  proof -
    have "(of_int (2 ^ nat (?k - 1)) :: real) \<le> of_int ?m" using k(1) by (simp only: of_int_le_iff)
    then have h1: "(2::real) ^ nat (?k - 1) \<le> of_int ?m" by simp
    from h1 my(1) show ?thesis by linarith
  qed
  have lo: "1 / (2::real) ^ nat ?k \<le> \<bar>x\<bar>"
    using yhi pos by (simp add: field_simps)
  have hi: "\<bar>x\<bar> < 1 / (2::real) ^ nat (?k - 1)"
    using ylo pos by (simp add: field_simps)
  have p1: "2 powi (- ?k) = 1 / (2::real) ^ nat ?k"
    using kpos by (simp add: power_int_def field_simps)
  have p2: "2 powi (- ?k + 1) = 1 / (2::real) ^ nat (?k - 1)"
  proof -
    have "- ?k + 1 = - (?k - 1)" by simp
    moreover have "2 powi (- (?k - 1)) = 1 / (2::real) ^ nat (?k - 1)"
      using kpos by (simp add: power_int_def field_simps)
    ultimately show ?thesis by simp
  qed
  have range: "- 1022 \<le> - ?k"
  proof (rule ccontr)
    assume "\<not> - 1022 \<le> - ?k"
    then have "- ?k + 1 \<le> - 1022" by simp
    then have "(2::real) powi (- ?k + 1) \<le> 2 powi (- 1022)"
      by (intro power_int_increasing) simp_all
    with hi normal show False unfolding p2 [symmetric] by linarith
  qed
  have e: "binade x = - ?k" using small range by (simp add: binade_def)
  show ?thesis unfolding e p1 p2 using lo hi by simp
qed

lemma round_half_even_nearest: "\<bar>of_int (round_half_even t) - t\<bar> \<le> 1 / 2"
  unfolding round_half_even_def by (simp split: if_splits)

lemma to_double_nearest:
  "\<bar>to_double x - x\<bar> \<le> 2 powi (binade x - 52) / 2"
proof (cases "x = 0")
  case True
  then show ?thesis by (simp add: to_double_def)
next
  case False
  let ?q = "(2::real) powi (binade x - 52)"
  have q: "0 < ?q" by simp
  have "\<bar>of_int (round_half_even (x / ?q)) - x / ?q\<bar> \<le> 1 / 2"
    by (rule round_half_even_nearest)
  then have "\<bar>of_int (round_half_even (x / ?q)) - x / ?q\<bar> * ?q \<le> 1 / 2 * ?q"
    using q by (intro mult_right_mono) simp_all
  moreover have "\<bar>of_int (round_half_even (x / ?q)) - x / ?q\<bar> * ?q
                   = \<bar>of_int (round_half_even (x / ?q)) * ?q - x\<bar>"
  proof -
    have "\<bar>of_int (round_half_even (x / ?q)) - x / ?q\<bar> * ?q
            = \<bar>(of_int (round_half_even (x / ?q)) - x / ?q) * ?q\<bar>"
      using q by (simp add: abs_mult)
    also have "(of_int (round_half_even (x / ?q)) - x / ?q) * ?q
                 = of_int (round_half_even (x / ?q)) * ?q - x"
      using q by (simp add: algebra_simps)
    finally show ?thesis .
  qed
  ultimately show ?thesis
    using False by (simp add: to_double_def)
qed

lemma trace_emit: "trace (emit e a) = trace a @ [e]"
  by (simp add: emit_def)

lemma trace_updateSimilarContentDisplay: "trace (updateSimilarContentDisplay items a) = trace a"
  by (simp add: updateSimilarContentDisplay_def)

lemma similarContent_updateSimilarContentDisplay:
  "similarContent (updateSimilarContentDisplay items a) = map similar_row_of items"
  by (simp add: updateSimilarContentDisplay_def)

lemma trace_searchSimilarContent:
  "trace (searchSimilarContent backend a) = trace a \<or>
   (\<exists>r. trace (searchSimilarContent backend a) = trace a @ [Fetch r]) \<or>
   (\<exists>r l. trace (searchSimilarContent backend a) = trace a @ [Fetch r, ConsoleError l])"
  by (simp add: searchSimilarContent_def Let_def trace_emit trace_updateSimilarContentDisplay
      split: option.splits fetched.splits)

lemma alerts_trace: "trace a = trace b \<Longrightarrow> alerts a = alerts b"
  by (simp add: alerts_def)

lemma alerts_emit_Alert: "alerts (emit (Alert m) a) = alerts a @ [m]"
  by (simp add: alerts_def emit_def)

lemma alerts_emit_Fetch: "alerts (emit (Fetch r) a) = alerts a"
  by (simp add: alerts_def emit_def)

lemma alerts_searchSimilarContent: "alerts (searchSimilarContent backend a) = alerts a"
  using trace_searchSimilarContent [of backend a] by (auto simp: alerts_def)

text \<open>At fifty characters and more the search is sent, with the trimmed text and limit 5.\<close>

lemma long_query_searched:
  assumes "currentFile a = Some file" and "editor a = Some ed"
    and "50 \<le> length (js_trim (getValue ed))"
  shows "requests (searchSimilarContent backend a)
         = requests a @ [PostSimilar (js_trim (getValue ed)) file 5]"
  using assms
  by (simp add: searchSimilarContent_def requests_def Let_def trace_emit
      trace_updateSimilarContentDisplay split: option.splits fetched.splits)

subsection \<open>Confidence classes\<close>

text \<open>
  Claim C9. \<^verbatim>\<open>getConfidenceClass\<close> is total on the integers and returns one of the five
  classes; the ranges below 20, 20 to 39, 40 to 59, 60 to 79 and from 80 on partition the
  integers, each range being exactly the inputs of one class. Every input below 20, the
  negative ones included, gives very-low.
\<close>

theorem getConfidenceClass_partition:
  "getConfidenceClass p \<in> set [''confidence-very-high'', ''confidence-high'',
     ''confidence-medium'', ''confidence-low'', ''confidence-very-low''] \<and>
   (getConfidenceClass p = ''confidence-very-low'' \<longleftrightarrow> p < 20) \<and>
   (getConfidenceClass p = ''confidence-low'' \<longleftrightarrow> 20 \<le> p \<and> p \<le> 39) \<and>
   (getConfidenceClass p = ''confidence-medium'' \<longleftrightarrow> 40 \<le> p \<and> p \<le> 59) \<and>
   (getConfidenceClass p = ''confidence-high'' \<longleftrightarrow> 60 \<le> p \<and> p \<le> 79) \<and>
   (getConfidenceClass p = ''confidence-very-high'' \<longleftrightarrow> 80 \<le> p)"
proof -
  have "getConfidenceClass p \<in> set [''confidence-very-high'', ''confidence-high'',
     ''confidence-medium'', ''confidence-low'', ''confidence-very-low'']"
    by (simp add: getConfidenceClass_def)
  then show ?thesis
    using confidence_ranges [of p] by (simp only: simp_thms)
qed

theorem getConfidenceClass_partition_witness:
  "getConfidenceClass (- 37) = ''confidence-very-low'' \<and> getConfidenceClass 19 = ''confidence-very-low'' \<and>
   getConfidenceClass 20 = ''confidence-low'' \<and> getConfidenceClass 59 = ''confidence-medium'' \<and>
   getConfidenceClass 60 = ''confidence-high'' \<and> getConfidenceClass 100 = ''confidence-very-high''"
  using getConfidenceClass_partition [of "- 37"] getConfidenceClass_partition [of 19]
    getConfidenceClass_partition [of 20] getConfidenceClass_partition [of 59]
    getConfidenceClass_partition [of 60] getConfidenceClass_partition [of 100]
  by simp

text \<open>
  Claim C2, as stated, fails: the class is computed from the rounded percentage
  \<^verbatim>\<open>Math.round(item.similarity * 100)\<close>, not from \<^verbatim>\<open>score*100\<close> itself. The score
  51/256 is a double in [-1, 1], its product with 100 is exact, 19.921875, and below 20, yet
  the class is low, not very-low.
\<close>

theorem unrounded_score_bucket_counterexample:
  "- 1 \<le> (51 / 256 :: real) \<and> (51 / 256 :: real) \<le> 1 \<and>
   js_times (to_double (51 / 256)) 100 = 51 / 256 * 100 \<and> (51 / 256 :: real) * 100 < 20 \<and>
   row_class (similar_row_of \<lparr>file_path = ''b.md'', similarity = 51 / 256, snippet = ''text''\<rparr>)
     = ''confidence-low''"
  by (simp add: double_simps)

text \<open>
  Claim C2, amended. For every similarity result the class shown is the class of
  \<^verbatim>\<open>Math.round\<close> of the product \<^verbatim>\<open>score*100\<close> as the doubles give it: very-low when the
  rounded value is below 20, low for 20 to 39, medium for 40 to 59, high for 60 to 79,
  very-high from 80 on; on the product itself the bounds are 19.5, 39.5, 59.5 and 79.5, a
  product on a bound going up. The class is a label on the row: the rows are shown in the
  order of the results.
\<close>

theorem rounded_percentage_bucket:
  fixes item :: "'a similar_item_scheme" and items :: "'a similar_item_scheme list"
  shows
  "(row_class (similar_row_of item) = ''confidence-very-low'' \<longleftrightarrow>
      Math_round (js_times (to_double (similarity item)) 100) < 20) \<and>
   (row_class (similar_row_of item) = ''confidence-low'' \<longleftrightarrow>
      20 \<le> Math_round (js_times (to_double (similarity item)) 100) \<and>
      Math_round (js_times (to_double (similarity item)) 100) \<le> 39) \<and>
   (row_class (similar_row_of item) = ''confidence-medium'' \<longleftrightarrow>
      40 \<le> Math_round (js_times (to_double (similarity item)) 100) \<and>
      Math_round (js_times (to_double (similarity item)) 100) \<le> 59) \<and>
   (row_class (similar_row_of item) = ''confidence-high'' \<longleftrightarrow>
      60 \<le> Math_round (js_times (to_double (similarity item)) 100) \<and>
      Math_round (js_times (to_double (similarity item)) 100) \<le> 79) \<and>
   (row_class (similar_row_of item) = ''confidence-very-high'' \<longleftrightarrow>
      80 \<le> Math_round (js_times (to_double (similarity item)) 100)) \<and>
   (row_class (similar_row_of item) = ''confidence-very-low'' \<longleftrightarrow>
      js_times (to_double (similarity item)) 100 < 39 / 2) \<and>
   (row_class (similar_row_of item) = ''confidence-low'' \<longleftrightarrow>
      39 / 2 \<le> js_times (to_double (similarity item)) 100 \<and>
      js_times (to_double (similarity item)) 100 < 79 / 2) \<and>
   (row_class (similar_row_of item) = ''confidence-medium'' \<longleftrightarrow>
      79 / 2 \<le> js_times (to_double (similarity item)) 100 \<and>
      js_times (to_double (similarity item)) 100 < 119 / 2) \<and>
   (row_class (similar_row_of item) = ''confidence-high'' \<longleftrightarrow>
      119 / 2 \<le> js_times (to_double (similarity item)) 100 \<and>
      js_times (to_double (similarity item)) 100 < 159 / 2) \<and>
   (row_class (similar_row_of item) = ''confidence-very-high'' \<longleftrightarrow>
      159 / 2 \<le> js_times (to_double (similarity item)) 100) \<and>
   map row_file (similarContent (updateSimilarContentDisplay items a)) = map file_path items"
proof -
  let ?x = "js_times (to_double (similarity item)) 100"
  let ?p = "Math_round ?x"
  have lt: "\<And>k. ?p < k \<longleftrightarrow> ?x < of_int k - 1 / 2"
    by (rule Math_round_less)
  have ge: "\<And>k. k \<le> ?p \<longleftrightarrow> of_int k - 1 / 2 \<le> ?x"
    by (rule Math_round_ge)
  have le: "\<And>k. ?p \<le> k \<longleftrightarrow> ?x < of_int k + 1 / 2"
    by (rule Math_round_le)
  have order: "map row_file (similarContent (updateSimilarContentDisplay items a))
                 = map file_path items"
    by (simp add: updateSimilarContentDisplay_def similar_row_of_def Let_def comp_def)
  have rounded: "(getConfidenceClass ?p = ''confidence-very-low'' \<longleftrightarrow> ?p < 20) \<and>
       (getConfidenceClass ?p = ''confidence-low'' \<longleftrightarrow> 20 \<le> ?p \<and> ?p \<le> 39) \<and>
       (getConfidenceClass ?p = ''confidence-medium'' \<longleftrightarrow> 40 \<le> ?p \<and> ?p \<le> 59) \<and>
       (getConfidenceClass ?p = ''confidence-high'' \<longleftrightarrow> 60 \<le> ?p \<and> ?p \<le> 79) \<and>
       (getConfidenceClass ?p = ''confidence-very-high'' \<longleftrightarrow> 80 \<le> ?p)"
    by (rule confidence_ranges)
  have exact: "(getConfidenceClass ?p = ''confidence-very-low'' \<longleftrightarrow> ?x < 39 / 2) \<and>
       (getConfidenceClass ?p = ''confidence-low'' \<longleftrightarrow> 39 / 2 \<le> ?x \<and> ?x < 79 / 2) \<and>
       (getConfidenceClass ?p = ''confidence-medium'' \<longleftrightarrow> 79 / 2 \<le> ?x \<and> ?x < 119 / 2) \<and>
       (getConfidenceClass ?p = ''confidence-high'' \<longleftrightarrow> 119 / 2 \<le> ?x \<and> ?x < 159 / 2) \<and>
       (getConfidenceClass ?p = ''confidence-very-high'' \<longleftrightarrow> 159 / 2 \<le> ?x)"
    using rounded lt [of 20] ge [of 20] le [of 39] ge [of 40] le [of 59] ge [of 60]
      le [of 79] ge [of 80]
    by simp
  show ?thesis
    unfolding row_class_similar_row_of using rounded exact order by blast
qed

theorem rounded_percentage_bucket_witness:
  "row_class (similar_row_of \<lparr>file_path = ''b.md'', similarity = 51 / 256, snippet = ''text''\<rparr>)
     = ''confidence-low'' \<and>
   row_class (similar_row_of \<lparr>file_path = ''c.md'', similarity = 595 / 1000, snippet = ''more''\<rparr>)
     = ''confidence-high'' \<and>
   row_class (similar_row_of \<lparr>file_path = ''a.md'', similarity = - 1 / 4, snippet = ''other''\<rparr>)
     = ''confidence-very-low'' \<and>
   map row_file (similarContent (updateSimilarContentDisplay
     [\<lparr>file_path = ''b.md'', similarity = 51 / 256, snippet = ''text''\<rparr>,
      \<lparr>file_path = ''c.md'', similarity = 595 / 1000, snippet = ''more''\<rparr>,
      \<lparr>file_path = ''a.md'', similarity = - 1 / 4, snippet = ''other''\<rparr>] example_app))
     = [''b.md'', ''c.md'', ''a.md'']"
proof -
  have x: "js_times (to_double (51 / 256)) 100 = 5100 / 256"
    "js_times (to_double (595 / 1000)) 100 = 119 / 2"
    "js_times (to_double (- 1 / 4)) 100 = - 25"
    by (simp_all add: js_times_def to_double_def binade_def bit_length.simps round_half_even_def)
  show ?thesis
    using rounded_percentage_bucket
      [of "\<lparr>file_path = ''b.md'', similarity = 51 / 256, snippet = ''text''\<rparr>"
          "[\<lparr>file_path = ''b.md'', similarity = 51 / 256, snippet = ''text''\<rparr>,
            \<lparr>file_path = ''c.md'', similarity = 595 / 1000, snippet = ''more''\<rparr>,
            \<lparr>file_path = ''a.md'', similarity = - 1 / 4, snippet = ''other''\<rparr>]" example_app]
      rounded_percentage_bucket
      [of "\<lparr>file_path = ''c.md'', similarity = 595 / 1000, snippet = ''more''\<rparr>"
          "[] :: similar_item list" example_app]
      rounded_percentage_bucket
      [of "\<lparr>file_path = ''a.md'', similarity = - 1 / 4, snippet = ''other''\<rparr>"
          "[] :: similar_item list" example_app]
      x
    by simp
qed

subsection \<open>Related notes: the search and its reply\<close>

text \<open>
  Claim C3. When the trimmed text of the editor is shorter than fifty characters,
  \<^verbatim>\<open>searchSimilarContent\<close> shows the empty list and sends nothing: the trace of requests
  and dialogs is unchanged.
\<close>

theorem short_query_not_searched:
  assumes "editor a = Some ed" and "length (js_trim (getValue ed)) < 50"
  shows "similarContent (searchSimilarContent backend a) = [] \<and>
         trace (searchSimilarContent backend a) = trace a \<and>
         requests (searchSimilarContent backend a) = requests a"
  using assms
  by (simp add: searchSimilarContent_def requests_def Let_def
      trace_updateSimilarContentDisplay similarContent_updateSimilarContentDisplay
      split: option.splits)

theorem short_query_not_searched_witness:
  "editor (example_app\<lparr>similarContent := [\<lparr>row_file = ''old.md'', row_score = ''71%'',
       row_class = ''confidence-high'', row_snippet = ''old'', row_opens = ''old.md''\<rparr>]\<rparr>)
     = Some \<lparr>before = ''# Today'', selection = ''a plan'', after = '' for the week''\<rparr> \<and>
   length (js_trim (getValue
     \<lparr>before = ''# Today'', selection = ''a plan'', after = '' for the week''\<rparr>)) < 50 \<and>
   similarContent (searchSimilarContent
     (replies (Json \<lparr>error = None, similar = Some
        [\<lparr>file_path = ''b.md'', similarity = 9 / 10, snippet = ''text''\<rparr>]\<rparr>))
     (example_app\<lparr>similarContent := [\<lparr>row_file = ''old.md'', row_score = ''71%'',
       row_class = ''confidence-high'', row_snippet = ''old'', row_opens = ''old.md''\<rparr>]\<rparr>)) = [] \<and>
   requests (searchSimilarContent
     (replies (Json \<lparr>error = None, similar = Some
        [\<lparr>file_path = ''b.md'', similarity = 9 / 10, snippet = ''text''\<rparr>]\<rparr>))
     (example_app\<lparr>similarContent := [\<lparr>row_file = ''old.md'', row_score = ''71%'',
       row_class = ''confidence-high'', row_snippet = ''old'', row_opens = ''old.md''\<rparr>]\<rparr>)) = []"
proof -
  let ?a = "example_app\<lparr>similarContent := [\<lparr>row_file = ''old.md'', row_score = ''71%'',
       row_class = ''confidence-high'', row_snippet = ''old'', row_opens = ''old.md''\<rparr>]\<rparr>"
  let ?ed = "\<lparr>before = ''# Today'', selection = ''a plan'', after = '' for the week''\<rparr>"
  let ?backend = "replies (Json \<lparr>error = None,
    similar = Some [\<lparr>file_path = ''b.md'', similarity = 9 / 10, snippet = ''text''\<rparr>]\<rparr>)"
  have e: "editor ?a = Some ?ed" by (simp add: example_app_def)
  have l: "length (js_trim (getValue ?ed)) < 50"
    by (simp add: js_trim_def getValue_def js_whitespace_def)
  have r: "requests ?a = []" by (simp add: requests_def example_app_def)
  show ?thesis
    using short_query_not_searched [OF e l, of ?backend] e l r by simp
qed

text \<open>
  Claim C6, as stated, fails. The client reads the list from the field \<^verbatim>\<open>similar\<close> of
  the reply: a reply of the listed shape, with the entries under \<^verbatim>\<open>results\<close>, is shown as
  no result although the search was sent. And the client never reads
  \<^verbatim>\<open>confidence_bucket\<close>: an entry labelled low with similarity 0.9 is shown very-high.
\<close>

theorem results_field_not_read_counterexample:
  "similarContent (searchSimilarContent
     (replies (Json \<lparr>error = None, similar = None,
        results = [\<lparr>file_path = ''b.md'', similarity = 9 / 10, snippet = ''text'',
                    confidence_bucket = ''low''\<rparr>]\<rparr>))
     (example_app\<lparr>editor := Some \<lparr>before = long_note, selection = [], after = []\<rparr>\<rparr>)) = [] \<and>
   requests (searchSimilarContent
     (replies (Json \<lparr>error = None, similar = None,
        results = [\<lparr>file_path = ''b.md'', similarity = 9 / 10, snippet = ''text'',
                    confidence_bucket = ''low''\<rparr>]\<rparr>))
     (example_app\<lparr>editor := Some \<lparr>before = long_note, selection = [], after = []\<rparr>\<rparr>))
     = [PostSimilar ''Plans for the week: write the report, review the budget, call the supplier.''
          ''notes/today.md'' 5] \<and>
   row_class (similar_row_of \<lparr>file_path = ''b.md'', similarity = 9 / 10, snippet = ''text'',
                    confidence_bucket = ''low''\<rparr>) = ''confidence-very-high''"
proof -
  have shown: "row_class (similar_row_of \<lparr>file_path = ''b.md'', similarity = 9 / 10,
      snippet = ''text'', confidence_bucket = ''low''\<rparr>) = ''confidence-very-high''"
    by (simp add: double_simps)
  have sent: "similarContent (searchSimilarContent
     (replies (Json \<lparr>error = None, similar = None,
        results = [\<lparr>file_path = ''b.md'', similarity = 9 / 10, snippet = ''text'',
                    confidence_bucket = ''low''\<rparr>]\<rparr>))
     (example_app\<lparr>editor := Some \<lparr>before = long_note, selection = [], after = []\<rparr>\<rparr>)) = [] \<and>
   requests (searchSimilarContent
     (replies (Json \<lparr>error = None, similar = None,
        results = [\<lparr>file_path = ''b.md'', similarity = 9 / 10, snippet = ''text'',
                    confidence_bucket = ''low''\<rparr>]\<rparr>))
     (example_app\<lparr>editor := Some \<lparr>before = long_note, selection = [], after = []\<rparr>\<rparr>))
     = [PostSimilar ''Plans for the week: write the report, review the budget, call the supplier.''
          ''notes/today.md'' 5]"
    by (simp add: searchSimilarContent_def example_app_def long_note_def js_trim_def
        js_whitespace_def getValue_def Let_def requests_def emit_def
        updateSimilarContentDisplay_def)
  from sent shown show ?thesis by simp
qed

text \<open>
  Claim C6, amended. For every similarity search that is sent (a note is open and the
  trimmed text has fifty characters or more), the request carries the trimmed text, the path
  of the open note and the limit 5, and the client shows the entries of the reply's
  \<^verbatim>\<open>similar\<close> field, or nothing when the reply has no such field. Of each entry it
  consumes \<^verbatim>\<open>file_path\<close>, \<^verbatim>\<open>similarity\<close> and \<^verbatim>\<open>snippet\<close> and nothing else: the
  percentage shown is \<^verbatim>\<open>Math.round\<close> of the product of doubles \<^verbatim>\<open>similarity * 100\<close>, the
  class shown is the one the client computes from it, and any further field of the entry,
  a \<^verbatim>\<open>confidence_bucket\<close> included, is ignored.
\<close>

theorem similar_reply_consumed:
  fixes backend :: "request \<Rightarrow> ('a similar_item_scheme, 'b) similar_result_scheme fetched"
    and entry :: "'c similar_item_scheme"
  assumes "currentFile a = Some file" and "editor a = Some ed"
    and "50 \<le> length (js_trim (getValue ed))"
    and "backend (PostSimilar (js_trim (getValue ed)) file 5) = Json result"
  shows "requests (searchSimilarContent backend a)
           = requests a @ [PostSimilar (js_trim (getValue ed)) file 5] \<and>
         similarContent (searchSimilarContent backend a)
           = (case similar result of
                None \<Rightarrow> []
              | Some items \<Rightarrow>
                  map (\<lambda>item.
                    \<lparr>row_file = file_path item,
                     row_score =
                       js_int_string (Math_round (js_times (to_double (similarity item)) 100))
                         @ ''%'',
                     row_class =
                       getConfidenceClass (Math_round (js_times (to_double (similarity item)) 100)),
                     row_snippet = snippet item,
                     row_opens = file_path item\<rparr>) items) \<and>
         similar_row_of entry = similar_row_of (similar_item.truncate entry)"
  using assms
  by (simp add: searchSimilarContent_def requests_def Let_def trace_emit
      trace_updateSimilarContentDisplay similarContent_updateSimilarContentDisplay
      similar_row_of_def similar_item.truncate_def split: option.splits)

theorem similar_reply_consumed_witness:
  "similarContent (searchSimilarContent
     (replies (Json \<lparr>error = None, similar = Some
        [\<lparr>file_path = ''b.md'', similarity = 9 / 10, snippet = ''text'',
           confidence_bucket = ''low''\<rparr>,
         \<lparr>file_path = ''c.md'', similarity = 595 / 1000, snippet = ''more'',
           confidence_bucket = ''medium''\<rparr>]\<rparr>))
     (example_app\<lparr>editor := Some \<lparr>before = long_note, selection = [], after = []\<rparr>\<rparr>))
   = [\<lparr>row_file = ''b.md'', row_score = ''90%'', row_class = ''confidence-very-high'',
        row_snippet = ''text'', row_opens = ''b.md''\<rparr>,
      \<lparr>row_file = ''c.md'', row_score = ''60%'', row_class = ''confidence-high'',
        row_snippet = ''more'', row_opens = ''c.md''\<rparr>]"
proof -
  let ?items = "[\<lparr>file_path = ''b.md'', similarity = 9 / 10, snippet = ''text'',
           confidence_bucket = ''low''\<rparr>,
         \<lparr>file_path = ''c.md'', similarity = 595 / 1000, snippet = ''more'',
           confidence_bucket = ''medium''\<rparr>]"
  let ?result = "\<lparr>error = None, similar = Some ?items\<rparr>"
  let ?backend = "replies (Json ?result)"
  let ?ed = "\<lparr>before = long_note, selection = [], after = []\<rparr>"
  let ?a = "example_app\<lparr>editor := Some ?ed\<rparr>"
  have f: "currentFile ?a = Some ''notes/today.md''" by (simp add: example_app_def)
  have e: "editor ?a = Some ?ed" by simp
  have l: "50 \<le> length (js_trim (getValue ?ed))"
    by (simp add: long_note_def js_trim_def js_whitespace_def getValue_def)
  have b: "?backend (PostSimilar (js_trim (getValue ?ed)) ''notes/today.md'' 5) = Json ?result"
    by simp
  have r: "Math_round (js_times (to_double (9 / 10)) 100) = 90"
    "Math_round (js_times (to_double (595 / 1000)) 100) = 60"
    by (simp_all add: Math_round_def js_times_def to_double_def binade_def bit_length.simps
        round_half_even_def)
  have d: "js_int_string 90 = ''90''" "js_int_string 60 = ''60''"
    by (simp_all add: js_int_string_def digit_char_def)
  have c: "getConfidenceClass 90 = ''confidence-very-high''"
    "getConfidenceClass 60 = ''confidence-high''"
    by (simp_all add: getConfidenceClass_def)
  show ?thesis
    using similar_reply_consumed [where backend = ?backend and entry = "hd ?items", OF f e l b]
      r d c
    by simp
qed

subsection \<open>Rebuilding the index\<close>

text \<open>
  Claim C7, as stated, fails. The client shows the processed count only when the result has
  a \<^verbatim>\<open>success\<close> flag that is set. A result that carries the processed count and the
  failed count and nothing else is reported as an error: the alert is
  \<^verbatim>\<open>Error indexing vault: undefined\<close> and the count 12 is not shown.
\<close>

theorem counts_without_success_counterexample:
  "truthy (vaultName example_app) \<and>
   requests (reindexVault
     (replies (Json \<lparr>error = None, success = False, processed = Some 12, failed = 3\<rparr>))
     (replies (Json \<lparr>error = None, similar = Some ([] :: similar_item list)\<rparr>))
     example_app) = [PostReindex] \<and>
   alerts (reindexVault
     (replies (Json \<lparr>error = None, success = False, processed = Some 12, failed = 3\<rparr>))
     (replies (Json \<lparr>error = None, similar = Some ([] :: similar_item list)\<rparr>))
     example_app) = [''Error indexing vault: undefined'']"
  by (simp add: reindexVault_def example_app_def truthy_def Let_def emit_def requests_def
      alerts_def js_string_of_def)

text \<open>
  Claim C7, amended. For every rebuild request that is sent (a vault is selected) and
  answered with a result, the client shows exactly one alert. When the \<^verbatim>\<open>success\<close> flag
  of the result is set, the alert reports the processed count of that result; otherwise it
  reports the \<^verbatim>\<open>error\<close> text of the result. The failed count of the result is not read.
\<close>

theorem reindex_reports_processed:
  fixes result :: "'r rebuild_report_scheme"
  assumes vault: "truthy (vaultName a)" and reply: "reindex_backend PostReindex = Json result"
  shows "alerts (reindexVault reindex_backend similar_backend a)
           = alerts a @
             [if success result
              then ''Successfully indexed '' @ js_count_string (processed result) @ '' files!''
              else ''Error indexing vault: '' @ js_string_of (error result)]"
proof -
  define a2 where
    "a2 = emit (Fetch PostReindex) (a\<lparr>reindexText := ''Indexing...'', reindexDisabled := True\<rparr>)"
  have a2: "alerts a2 = alerts a"
    by (simp add: a2_def alerts_def emit_def)
  show ?thesis
  proof (cases "success result")
    case True
    define a' where
      "a' = emit (Alert (''Successfully indexed ''
               @ js_count_string (processed result) @ '' files!'')) a2"
    define a3 where
      "a3 = (if currentFile a' \<noteq> None \<and> editor a' \<noteq> None
             then searchSimilarContent similar_backend a' else a')"
    have run: "reindexVault reindex_backend similar_backend a
                 = a3\<lparr>reindexText := reindexText a, reindexDisabled := False\<rparr>"
      using vault reply True
      by (simp add: reindexVault_def Let_def a2_def a'_def a3_def)
    have "alerts a' = alerts a
            @ [''Successfully indexed '' @ js_count_string (processed result) @ '' files!'']"
      by (simp add: a'_def alerts_emit_Alert a2)
    moreover have "alerts a3 = alerts a'"
      by (simp add: a3_def alerts_searchSimilarContent)
    moreover have "alerts (a3\<lparr>reindexText := reindexText a, reindexDisabled := False\<rparr>)
                     = alerts a3"
      by (rule alerts_trace) simp
    ultimately show ?thesis
      using True by (simp add: run)
  next
    case False
    define a3 where
      "a3 = emit (Alert (''Error indexing vault: '' @ js_string_of (error result))) a2"
    have run: "reindexVault reindex_backend similar_backend a
                 = a3\<lparr>reindexText := reindexText a, reindexDisabled := False\<rparr>"
      using vault reply False
      by (simp add: reindexVault_def Let_def a2_def a3_def)
    have "alerts a3 = alerts a @ [''Error indexing vault: '' @ js_string_of (error result)]"
      by (simp add: a3_def alerts_emit_Alert a2)
    moreover have "alerts (a3\<lparr>reindexText := reindexText a, reindexDisabled := False\<rparr>)
                     = alerts a3"
      by (rule alerts_trace) simp
    ultimately show ?thesis
      using False by (simp add: run)
  qed
qed

theorem reindex_reports_processed_witness:
  "truthy (vaultName example_app) \<and>
   alerts (reindexVault
     (replies (Json \<lparr>error = None, success = True, processed = Some 12, failed = 3\<rparr>))
     (replies (Json \<lparr>error = None, similar = Some ([] :: similar_item list)\<rparr>))
     example_app) = [''Successfully indexed 12 files!''] \<and>
   alerts (reindexVault
     (replies (Json \<lparr>error = Some ''Index is locked'', success = False, processed = None,
        failed = 0\<rparr>))
     (replies (Json \<lparr>error = None, similar = Some ([] :: similar_item list)\<rparr>))
     example_app) = [''Error indexing vault: Index is locked'']"
proof -
  let ?result = "\<lparr>error = None, success = True, processed = Some 12, failed = 3\<rparr>"
  let ?failure = "\<lparr>error = Some ''Index is locked'', success = False, processed = None,
        failed = 0\<rparr>"
  let ?sb = "replies (Json \<lparr>error = None, similar = Some ([] :: similar_item list)\<rparr>)"
  have v: "truthy (vaultName example_app)" by (simp add: example_app_def truthy_def)
  have r: "replies (Json ?result) PostReindex = Json ?result"
    and f: "replies (Json ?failure) PostReindex = Json ?failure"
    by simp_all
  have a: "alerts example_app = []" by (simp add: alerts_def example_app_def)
  have d: "js_int_string 12 = ''12''" by (simp add: js_int_string_def digit_char_def)
  show ?thesis
    using reindex_reports_processed
        [where reindex_backend = "replies (Json ?result)" and similar_backend = ?sb, OF v r]
      reindex_reports_processed
        [where reindex_backend = "replies (Json ?failure)" and similar_backend = ?sb, OF v f]
      v a d
    by (simp add: js_count_string_def js_string_of_def)
qed

subsection \<open>Changing the embedding model\<close>

text \<open>
  Claim C10. Selecting the name of the current model is a no-op: the state, and with it the
  trace of requests, is unchanged. When another name is selected and the request fails (the
  fetch throws, or the reply's \<^verbatim>\<open>success\<close> is not set), \<^verbatim>\<open>this.currentModel\<close> keeps its
  value, the selector is set back to it and enabled again; the one request of the call is
  the failed one, and one alert reports the error.
\<close>

theorem changeModel_failure_keeps_model:
  fixes model_backend :: "request \<Rightarrow> 's status_result_scheme fetched"
    and reindex_backend :: "request \<Rightarrow> 'r reindex_result_scheme fetched"
    and similar_backend :: "request \<Rightarrow> ('a similar_item_scheme, 'b) similar_result_scheme fetched"
  shows
  "(Some modelName = currentModel a \<longrightarrow>
      changeModel modelName model_backend confirm_answer reindex_backend similar_backend a = a) \<and>
   (modelName \<noteq> [] \<and> Some modelName \<noteq> currentModel a \<and>
    (case model_backend (PostModelsCurrent modelName) of
       Rejected message \<Rightarrow> True
     | Json result \<Rightarrow> \<not> success result) \<longrightarrow>
      currentModel (changeModel modelName model_backend confirm_answer reindex_backend
        similar_backend a) = currentModel a \<and>
      selectorValue (changeModel modelName model_backend confirm_answer reindex_backend
        similar_backend a) = currentModel a \<and>
      selectorDisabled (changeModel modelName model_backend confirm_answer reindex_backend
        similar_backend a) = False \<and>
      requests (changeModel modelName model_backend confirm_answer reindex_backend
        similar_backend a) = requests a @ [PostModelsCurrent modelName] \<and>
      alerts (changeModel modelName model_backend confirm_answer reindex_backend
        similar_backend a) = alerts a @
        [''Error changing model: '' @
           (case model_backend (PostModelsCurrent modelName) of
              Rejected message \<Rightarrow> message
            | Json result \<Rightarrow> js_string_of (error result))])"
  by (auto simp add: changeModel_def Let_def emit_def requests_def alerts_def
      split: fetched.splits)

theorem changeModel_failure_keeps_model_witness:
  "changeModel ''all-MiniLM-L6-v2''
     (replies (Json \<lparr>error = None, success = True\<rparr>)) True
     (replies (Json \<lparr>error = None, success = True, processed = Some 12\<rparr>))
     (replies (Json \<lparr>error = None, similar = Some ([] :: similar_item list)\<rparr>))
     example_app = example_app \<and>
   currentModel (changeModel ''bge-small''
     (replies (Json \<lparr>error = Some ''Unknown model'', success = False\<rparr>)) True
     (replies (Json \<lparr>error = None, success = True, processed = Some 12\<rparr>))
     (replies (Json \<lparr>error = None, similar = Some ([] :: similar_item list)\<rparr>))
     (example_app\<lparr>selectorValue := Some ''bge-small''\<rparr>)) = Some ''all-MiniLM-L6-v2'' \<and>
   selectorValue (changeModel ''bge-small''
     (replies (Json \<lparr>error = Some ''Unknown model'', success = False\<rparr>)) True
     (replies (Json \<lparr>error = None, success = True, processed = Some 12\<rparr>))
     (replies (Json \<lparr>error = None, similar = Some ([] :: similar_item list)\<rparr>))
     (example_app\<lparr>selectorValue := Some ''bge-small''\<rparr>)) = Some ''all-MiniLM-L6-v2'' \<and>
   alerts (changeModel ''bge-small''
     (replies (Json \<lparr>error = Some ''Unknown model'', success = False\<rparr>)) True
     (replies (Json \<lparr>error = None, success = True, processed = Some 12\<rparr>))
     (replies (Json \<lparr>error = None, similar = Some ([] :: similar_item list)\<rparr>))
     (example_app\<lparr>selectorValue := Some ''bge-small''\<rparr>))
     = [''Error changing model: Unknown model''] \<and>
   currentModel (changeModel ''bge-small''
     (replies (Rejected ''Failed to fetch'' :: status_result fetched)) True
     (replies (Json \<lparr>error = None, success = True, processed = Some 12\<rparr>))
     (replies (Json \<lparr>error = None, similar = Some ([] :: similar_item list)\<rparr>))
     (example_app\<lparr>selectorValue := Some ''bge-small''\<rparr>)) = Some ''all-MiniLM-L6-v2'' \<and>
   selectorValue (changeModel ''bge-small''
     (replies (Rejected ''Failed to fetch'' :: status_result fetched)) True
     (replies (Json \<lparr>error = None, success = True, processed = Some 12\<rparr>))
     (replies (Json \<lparr>error = None, similar = Some ([] :: similar_item list)\<rparr>))
     (example_app\<lparr>selectorValue := Some ''bge-small''\<rparr>)) = Some ''all-MiniLM-L6-v2''"
proof -
  let ?rb = "replies (Json \<lparr>error = None, success = True, processed = Some 12\<rparr>)"
  let ?sb = "replies (Json \<lparr>error = None, similar = Some ([] :: similar_item list)\<rparr>)"
  let ?ok = "replies (Json \<lparr>error = None, success = True\<rparr>)"
  let ?no = "replies (Json \<lparr>error = Some ''Unknown model'', success = False\<rparr>)"
  let ?down = "replies (Rejected ''Failed to fetch'' :: status_result fetched)"
  let ?a = "example_app\<lparr>selectorValue := Some ''bge-small''\<rparr>"
  have cur: "currentModel example_app = Some ''all-MiniLM-L6-v2''"
    "currentModel ?a = Some ''all-MiniLM-L6-v2''"
    by (simp_all add: example_app_def)
  have al: "alerts ?a = []" by (simp add: alerts_def example_app_def)
  show ?thesis
    using changeModel_failure_keeps_model [of "''all-MiniLM-L6-v2''" example_app ?ok True ?rb ?sb]
      changeModel_failure_keeps_model [of "''bge-small''" ?a ?no True ?rb ?sb]
      changeModel_failure_keeps_model [of "''bge-small''" ?a ?down True ?rb ?sb]
      cur al
    by (simp add: js_string_of_def)
qed

subsection \<open>Generation with a single reply\<close>

text \<open>
  Claim C5. For a non-streaming generation with a non-blank prompt whose reply is one
  record with the response text and the context count (and no error), the client sends one
  request, shows the response text, and reports \<^verbatim>\<open>Used context from N notes\<close> exactly when
  the count N is greater than 0 and \<^verbatim>\<open>No context used\<close> otherwise.
\<close>

theorem plain_generation_reports_context:
  fixes generate_backend :: "request \<Rightarrow> 'g generate_result_scheme fetched"
  assumes prompt: "js_trim (promptValue a) \<noteq> []"
    and reply: "generate_backend (PostAiGenerate (js_trim (promptValue a)) (useContext a) (aiModel a))
                  = Json result"
    and no_error: "\<not> truthy (error result)"
    and count: "context_used result = Some n"
  shows "requests (generateAIResponse False JSON_parse stream_backend generate_backend a)
           = requests a @ [PostAiGenerate (js_trim (promptValue a)) (useContext a) (aiModel a)] \<and>
         responseContent (generateAIResponse False JSON_parse stream_backend generate_backend a)
           = response result \<and>
         responseMeta (generateAIResponse False JSON_parse stream_backend generate_backend a)
           = (if n > 0 then ''Used context from '' @ js_int_string n @ '' notes''
              else ''No context used'') \<and>
         (responseMeta (generateAIResponse False JSON_parse stream_backend generate_backend a)
            = ''Used context from '' @ js_int_string n @ '' notes'' \<longleftrightarrow> n > 0) \<and>
         (responseMeta (generateAIResponse False JSON_parse stream_backend generate_backend a)
            = ''No context used'' \<longleftrightarrow> \<not> n > 0)"
  using assms
  by (simp add: generateAIResponse_def generate_plain_def Let_def emit_def requests_def)

theorem plain_generation_reports_context_witness:
  "responseContent (generateAIResponse False example_parse (replies (NotOk))
     (replies (Json \<lparr>error = None, response = ''You planned a report.'', context_used = Some 3\<rparr>))
     example_app) = ''You planned a report.'' \<and>
   responseMeta (generateAIResponse False example_parse (replies (NotOk))
     (replies (Json \<lparr>error = None, response = ''You planned a report.'', context_used = Some 3\<rparr>))
     example_app) = ''Used context from 3 notes'' \<and>
   responseMeta (generateAIResponse False example_parse (replies (NotOk))
     (replies (Json \<lparr>error = None, response = ''No idea.'', context_used = Some 0\<rparr>))
     example_app) = ''No context used''"
proof -
  let ?r3 = "\<lparr>error = None, response = ''You planned a report.'', context_used = Some 3\<rparr>"
  let ?r0 = "\<lparr>error = None, response = ''No idea.'', context_used = Some 0\<rparr>"
  let ?down = "replies (NotOk)"
  have p: "js_trim (promptValue example_app) \<noteq> []"
    by (simp add: example_app_def js_trim_def js_whitespace_def)
  have b3: "replies (Json ?r3) (PostAiGenerate (js_trim (promptValue example_app))
              (useContext example_app) (aiModel example_app)) = Json ?r3" by simp
  have b0: "replies (Json ?r0) (PostAiGenerate (js_trim (promptValue example_app))
              (useContext example_app) (aiModel example_app)) = Json ?r0" by simp
  have e3: "\<not> truthy (error ?r3)" and e0: "\<not> truthy (error ?r0)"
    by (simp_all add: truthy_def)
  have c3: "context_used ?r3 = Some 3" and c0: "context_used ?r0 = Some 0"
    by simp_all
  have d: "js_int_string 3 = ''3''" by (simp add: js_int_string_def digit_char_def)
  show ?thesis
    using plain_generation_reports_context
        [where generate_backend = "replies (Json ?r3)" and JSON_parse = example_parse
           and stream_backend = ?down, OF p b3 e3 c3]
      plain_generation_reports_context
        [where generate_backend = "replies (Json ?r0)" and JSON_parse = example_parse
           and stream_backend = ?down, OF p b0 e0 c0]
      d
    by simp
qed

subsection \<open>Transforming the selected text\<close>

text \<open>
  Claim C8, as stated, fails. The client takes the replacement from a field named after the
  action, not from \<^verbatim>\<open>result_text\<close>: for \<^verbatim>\<open>expand\<close>, a reply that carries the text in
  \<^verbatim>\<open>result_text\<close> leaves the editor as it was, although the request was sent.
\<close>

theorem result_text_not_read_counterexample:
  "transform_request ''expand'' (selectedText example_app)
     ''# Todaya plan for the week'' (aiModel example_app)
     = Some (PostAiExpand ''a plan'' ''# Todaya plan for the week'' ''llama3'') \<and>
   editor (handleContextAction ''expand''
     (replies (Json \<lparr>error = None, expanded_text = None, summary = None, rephrased_text = None,
        result_text = ''a detailed plan''\<rparr>))
     (replies (Json \<lparr>html = Some ''<p>new</p>''\<rparr>)) example_app) = editor example_app \<and>
   unsavedChanges (handleContextAction ''expand''
     (replies (Json \<lparr>error = None, expanded_text = None, summary = None, rephrased_text = None,
        result_text = ''a detailed plan''\<rparr>))
     (replies (Json \<lparr>html = Some ''<p>new</p>''\<rparr>)) example_app) = False \<and>
   requests (handleContextAction ''expand''
     (replies (Json \<lparr>error = None, expanded_text = None, summary = None, rephrased_text = None,
        result_text = ''a detailed plan''\<rparr>))
     (replies (Json \<lparr>html = Some ''<p>new</p>''\<rparr>)) example_app)
     = [PostAiExpand ''a plan'' ''# Todaya plan for the week'' ''llama3'']"
  by (simp add: handleContextAction_def transform_request_def result_text_of_def example_app_def
      js_trim_def js_whitespace_def getValue_def Let_def emit_def requests_def truthy_def)

text \<open>
  Claim C8, amended. For a transform action on a non-blank selection, the request body is
  \<^verbatim>\<open>{text, context, model}\<close> for expand, \<^verbatim>\<open>{text, model}\<close> for summarize and
  \<^verbatim>\<open>{text, tone, model}\<close> for the three rephrase actions, the tone being the part of the
  action's name after \<^verbatim>\<open>rephrase-\<close>. When the reply has no error, the replacement of the
  selection is the reply's \<^verbatim>\<open>expanded_text\<close> for expand, \<^verbatim>\<open>summary\<close> for summarize and
  \<^verbatim>\<open>rephrased_text\<close> for rephrase; when that field is missing or empty the document is
  unchanged and the transform request is the only one sent. When a replacement is made, the
  editor's change listener runs in the same call: the new text of the editor is posted to
  \<^verbatim>\<open>/api/preview\<close>, the document is marked as changed and the timer of the debounced
  similarity search is set.
\<close>

theorem transform_reply_consumed:
  fixes transform_backend :: "request \<Rightarrow> 't transform_result_scheme fetched"
    and preview_backend :: "request \<Rightarrow> 'p preview_result_scheme fetched"
  assumes sel: "js_trim (selectedText a) \<noteq> []" and ed: "editor a = Some d"
    and req: "transform_request action (selectedText a) (getValue d) (aiModel a) = Some req"
    and reply: "transform_backend req = Json result"
    and no_error: "\<not> truthy (error result)"
  shows "req = (if action = ''expand'' then PostAiExpand (selectedText a) (getValue d) (aiModel a)
                else if action = ''summarize'' then PostAiSummarize (selectedText a) (aiModel a)
                else PostAiRephrase (selectedText a) (drop 9 action) (aiModel a)) \<and>
         (action = ''expand'' \<or> action = ''summarize'' \<or> action = ''rephrase-professional'' \<or>
          action = ''rephrase-casual'' \<or> action = ''rephrase-academic'') \<and>
         requests (handleContextAction action transform_backend preview_backend a)
           = requests a @ req #
             (case (if action = ''expand'' then expanded_text result
                    else if action = ''summarize'' then summary result
                    else rephrased_text result) of
                None \<Rightarrow> []
              | Some resultText \<Rightarrow>
                  if resultText = [] then []
                  else [PostPreview (getValue (replaceSelection resultText d))]) \<and>
         editor (handleContextAction action transform_backend preview_backend a)
           = (case (if action = ''expand'' then expanded_text result
                    else if action = ''summarize'' then summary result
                    else rephrased_text result) of
                None \<Rightarrow> Some d
              | Some resultText \<Rightarrow>
                  if resultText = [] then Some d else Some (replaceSelection resultText d)) \<and>
         unsavedChanges (handleContextAction action transform_backend preview_backend a)
           = (case (if action = ''expand'' then expanded_text result
                    else if action = ''summarize'' then summary result
                    else rephrased_text result) of
                None \<Rightarrow> unsavedChanges a
              | Some resultText \<Rightarrow> if resultText = [] then unsavedChanges a else True) \<and>
         similarityTimeout (handleContextAction action transform_backend preview_backend a)
           = (case (if action = ''expand'' then expanded_text result
                    else if action = ''summarize'' then summary result
                    else rephrased_text result) of
                None \<Rightarrow> similarityTimeout a
              | Some resultText \<Rightarrow> if resultText = [] then similarityTimeout a else True)"
proof -
  have act: "action = ''expand'' \<or> action = ''summarize'' \<or> action = ''rephrase-professional'' \<or>
          action = ''rephrase-casual'' \<or> action = ''rephrase-academic''"
  proof (rule ccontr)
    assume "\<not> ?thesis"
    then have "transform_request action (selectedText a) (getValue d) (aiModel a) = None"
      by (simp add: transform_request_def)
    with req show False by simp
  qed
  have body_field: "req = (if action = ''expand'' then PostAiExpand (selectedText a) (getValue d) (aiModel a)
                else if action = ''summarize'' then PostAiSummarize (selectedText a) (aiModel a)
                else PostAiRephrase (selectedText a) (drop 9 action) (aiModel a)) \<and>
      result_text_of action result
                 = (if action = ''expand'' then expanded_text result
                    else if action = ''summarize'' then summary result
                    else rephrased_text result)"
    using act
  proof (elim disjE)
    assume "action = ''expand''"
    then show ?thesis using req by (simp add: transform_request_def result_text_of_def)
  next
    assume "action = ''summarize''"
    then show ?thesis using req by (simp add: transform_request_def result_text_of_def)
  next
    assume "action = ''rephrase-professional''"
    then show ?thesis using req
      by (simp add: transform_request_def result_text_of_def startsWith_def)
  next
    assume "action = ''rephrase-casual''"
    then show ?thesis using req
      by (simp add: transform_request_def result_text_of_def startsWith_def)
  next
    assume "action = ''rephrase-academic''"
    then show ?thesis using req
      by (simp add: transform_request_def result_text_of_def startsWith_def)
  qed
  then have body: "req = (if action = ''expand'' then PostAiExpand (selectedText a) (getValue d) (aiModel a)
                else if action = ''summarize'' then PostAiSummarize (selectedText a) (aiModel a)
                else PostAiRephrase (selectedText a) (drop 9 action) (aiModel a))"
    and field: "result_text_of action result
                 = (if action = ''expand'' then expanded_text result
                    else if action = ''summarize'' then summary result
                    else rephrased_text result)"
    by simp_all
  define a1 where "a1 = emit (Fetch req) a"
  have run: "handleContextAction action transform_backend preview_backend a
               = (case result_text_of action result of
                    None \<Rightarrow> a1
                  | Some resultText \<Rightarrow>
                      if resultText = [] then a1
                      else (on_change preview_backend
                              (a1\<lparr>editor := Some (replaceSelection resultText d)\<rparr>))
                             \<lparr>unsavedChanges := True\<rparr>)"
    using sel ed req reply no_error
    by (simp add: handleContextAction_def Let_def a1_def emit_def split: option.splits)
  have a1: "requests a1 = requests a @ [req]" "editor a1 = Some d"
    "unsavedChanges a1 = unsavedChanges a" "similarityTimeout a1 = similarityTimeout a"
    using ed by (simp_all add: a1_def requests_def emit_def)
  have changed: "\<And>t. requests (on_change preview_backend (a1\<lparr>editor := Some t\<rparr>))
                       = requests a @ [req, PostPreview (getValue t)] \<and>
                     editor (on_change preview_backend (a1\<lparr>editor := Some t\<rparr>)) = Some t \<and>
                     similarityTimeout (on_change preview_backend (a1\<lparr>editor := Some t\<rparr>))"
    using a1(1)
    by (simp add: on_change_def debouncedSimilaritySearch_def updatePreview_def Let_def
        requests_def emit_def split: fetched.splits option.splits)
  have r: "requests (handleContextAction action transform_backend preview_backend a)
           = requests a @ req #
             (case result_text_of action result of
                None \<Rightarrow> []
              | Some resultText \<Rightarrow>
                  if resultText = [] then []
                  else [PostPreview (getValue (replaceSelection resultText d))])"
    using a1(1) changed by (simp add: run requests_def split: option.splits)
  have e: "editor (handleContextAction action transform_backend preview_backend a)
           = (case result_text_of action result of
                None \<Rightarrow> Some d
              | Some resultText \<Rightarrow>
                  if resultText = [] then Some d else Some (replaceSelection resultText d))"
    using a1(2) changed by (simp add: run split: option.splits)
  have u: "unsavedChanges (handleContextAction action transform_backend preview_backend a)
           = (case result_text_of action result of
                None \<Rightarrow> unsavedChanges a
              | Some resultText \<Rightarrow> if resultText = [] then unsavedChanges a else True)"
    using a1(3) by (simp add: run split: option.splits)
  have t: "similarityTimeout (handleContextAction action transform_backend preview_backend a)
           = (case result_text_of action result of
                None \<Rightarrow> similarityTimeout a
              | Some resultText \<Rightarrow> if resultText = [] then similarityTimeout a else True)"
    using a1(4) changed by (simp add: run split: option.splits)
  show ?thesis
    using act body r e u t unfolding field by blast
qed

theorem transform_reply_consumed_witness:
  "requests (handleContextAction ''rephrase-casual''
     (replies (Json \<lparr>error = None, expanded_text = None, summary = None,
        rephrased_text = Some ''our plan''\<rparr>))
     (replies (Json \<lparr>html = Some ''<h1>Today</h1>''\<rparr>)) example_app)
     = [PostAiRephrase ''a plan'' ''casual'' ''llama3'',
        PostPreview ''# Todayour plan for the week''] \<and>
   editor (handleContextAction ''rephrase-casual''
     (replies (Json \<lparr>error = None, expanded_text = None, summary = None,
        rephrased_text = Some ''our plan''\<rparr>))
     (replies (Json \<lparr>html = Some ''<h1>Today</h1>''\<rparr>)) example_app)
     = Some \<lparr>before = ''# Todayour plan'', selection = [], after = '' for the week''\<rparr> \<and>
   unsavedChanges (handleContextAction ''rephrase-casual''
     (replies (Json \<lparr>error = None, expanded_text = None, summary = None,
        rephrased_text = Some ''our plan''\<rparr>))
     (replies (Json \<lparr>html = Some ''<h1>Today</h1>''\<rparr>)) example_app) \<and>
   similarityTimeout (handleContextAction ''rephrase-casual''
     (replies (Json \<lparr>error = None, expanded_text = None, summary = None,
        rephrased_text = Some ''our plan''\<rparr>))
     (replies (Json \<lparr>html = Some ''<h1>Today</h1>''\<rparr>)) example_app)"
proof -
  let ?result = "\<lparr>error = None, expanded_text = None, summary = None,
        rephrased_text = Some ''our plan''\<rparr>"
  let ?backend = "replies (Json ?result)"
  let ?preview = "replies (Json \<lparr>html = Some ''<h1>Today</h1>''\<rparr>)"
  let ?d = "\<lparr>before = ''# Today'', selection = ''a plan'', after = '' for the week''\<rparr>"
  let ?req = "PostAiRephrase ''a plan'' ''casual'' ''llama3''"
  have sel: "js_trim (selectedText example_app) \<noteq> []"
    by (simp add: example_app_def js_trim_def js_whitespace_def)
  have ed: "editor example_app = Some ?d"
    by (simp add: example_app_def)
  have req: "transform_request ''rephrase-casual'' (selectedText example_app) (getValue ?d)
               (aiModel example_app) = Some ?req"
    by (simp add: transform_request_def example_app_def)
  have reply: "?backend ?req = Json ?result" by simp
  have no_error: "\<not> truthy (error ?result)" by (simp add: truthy_def)
  have r0: "requests example_app = []" by (simp add: requests_def example_app_def)
  show ?thesis
    using transform_reply_consumed
        [where transform_backend = ?backend and preview_backend = ?preview,
         OF sel ed req reply no_error] r0
    by (simp add: replaceSelection_def getValue_def)
qed

subsection \<open>Generation with a streamed reply\<close>

text \<open>
  The read loop handles the complete lines of the body in order, however the body is cut
  into chunks; what follows the last line feed stays in the buffer.
\<close>

lemma split_lines_not_Nil: "split_lines s \<noteq> []"
  by (induction s) auto

lemma split_lines_append:
  "split_lines (xs @ ys) = butlast (split_lines xs) @ split_lines (last (split_lines xs) @ ys)"
proof (induction xs)
  case Nil
  show ?case by simp
next
  case (Cons c cs)
  obtain l ls where S: "split_lines cs = l # ls"
    using split_lines_not_Nil [of cs] by (cases "split_lines cs") auto
  show ?case
  proof (cases "c = CHR 0x0A")
    case True
    then show ?thesis using Cons S by simp
  next
    case False
    show ?thesis
    proof (cases ls)
      case Nil
      then show ?thesis using False Cons S by simp
    next
      case (Cons l' ls')
      then show ?thesis using False Cons.IH S by simp
    qed
  qed
qed

lemma split_lines_line:
  "CHR 0x0A \<notin> set l \<Longrightarrow> split_lines (l @ CHR 0x0A # rest) = l # split_lines rest"
  by (induction l) auto

lemma split_lines_no_LF: "CHR 0x0A \<notin> set s \<Longrightarrow> split_lines s = [s]"
  by (induction s) auto

lemma last_split_lines_no_LF: "CHR 0x0A \<notin> set (last (split_lines s))"
proof (induction s)
  case Nil
  show ?case by simp
next
  case (Cons c cs)
  obtain l ls where S: "split_lines cs = l # ls"
    using split_lines_not_Nil [of cs] by (cases "split_lines cs") auto
  show ?case using Cons S by (cases ls) auto
qed

lemma buffer_handle_data: "buffer (handle_data e r) = buffer r"
  by (cases e) simp_all

lemma handle_data_buffer: "handle_data e (r\<lparr>buffer := b\<rparr>) = (handle_data e r)\<lparr>buffer := b\<rparr>"
  by (cases e) simp_all

lemma handle_line_buffer:
  "handle_line P l (r\<lparr>buffer := b\<rparr>) = (handle_line P l r)\<lparr>buffer := b\<rparr>"
  by (simp add: handle_line_def handle_data_buffer split: option.splits)

lemma fold_handle_line_buffer:
  "fold (handle_line P) ls (r\<lparr>buffer := b\<rparr>) = (fold (handle_line P) ls r)\<lparr>buffer := b\<rparr>"
  by (induction ls arbitrary: r) (simp_all add: handle_line_buffer)

lemma read_loop_lines:
  "CHR 0x0A \<notin> set (buffer r) \<Longrightarrow> read_loop P chunks r =
     (fold (handle_line P) (butlast (split_lines (buffer r @ concat chunks))) r)
       \<lparr>buffer := last (split_lines (buffer r @ concat chunks))\<rparr>"
proof (induction chunks arbitrary: r)
  case Nil
  then show ?case by (simp add: split_lines_no_LF)
next
  case (Cons c cs)
  let ?S1 = "split_lines (buffer r @ c)"
  let ?r1 = "read_chunk P c r"
  let ?S2 = "split_lines (last ?S1 @ concat cs)"
  have r1: "?r1 = (fold (handle_line P) (butlast ?S1) r)\<lparr>buffer := last ?S1\<rparr>"
    by (simp add: read_chunk_def Let_def fold_handle_line_buffer)
  have b1: "buffer ?r1 = last ?S1"
    by (simp add: r1)
  have n1: "CHR 0x0A \<notin> set (buffer ?r1)"
    unfolding b1 by (rule last_split_lines_no_LF)
  have S: "split_lines (buffer r @ c @ concat cs) = butlast ?S1 @ ?S2"
    using split_lines_append [of "buffer r @ c" "concat cs"] by simp
  have S2: "?S2 \<noteq> []" by (rule split_lines_not_Nil)
  have "read_loop P (c # cs) r = read_loop P cs ?r1" by simp
  also have "\<dots> = (fold (handle_line P) (butlast ?S2) ?r1)\<lparr>buffer := last ?S2\<rparr>"
    using Cons.IH [OF n1] by (simp add: b1)
  also have "\<dots> = (fold (handle_line P) (butlast ?S1 @ butlast ?S2) r)\<lparr>buffer := last ?S2\<rparr>"
    by (simp add: r1 fold_handle_line_buffer)
  also have "butlast ?S1 @ butlast ?S2 = butlast (split_lines (buffer r @ c @ concat cs))"
    using S2 by (simp add: S butlast_append)
  also have "last ?S2 = last (split_lines (buffer r @ c @ concat cs))"
    using S2 by (simp add: S)
  finally show ?case by simp
qed

lemma split_lines_frames:
  "\<forall>e \<in> set es. CHR 0x0A \<notin> set (enc e) \<Longrightarrow>
   split_lines (concat (map (sse_frame enc) es))
     = concat (map (\<lambda>e. [''data: '' @ enc e, []]) es) @ [[]]"
proof (induction es)
  case Nil
  show ?case by simp
next
  case (Cons e es)
  have n: "CHR 0x0A \<notin> set (''data: '' @ enc e)"
    using Cons.prems by simp
  have "concat (map (sse_frame enc) (e # es))
          = (''data: '' @ enc e) @ CHR 0x0A # ([] @ CHR 0x0A # concat (map (sse_frame enc) es))"
    by (simp add: sse_frame_def)
  then have "split_lines (concat (map (sse_frame enc) (e # es)))
          = (''data: '' @ enc e) # [] # split_lines (concat (map (sse_frame enc) es))"
    using split_lines_line [OF n] split_lines_line [of "[]"] by simp
  then show ?case using Cons by simp
qed

lemma fold_handle_line_frames:
  "\<forall>e \<in> set es. P (enc e) = Some e \<Longrightarrow>
   fold (handle_line P) (concat (map (\<lambda>e. [''data: '' @ enc e, []]) es)) r = fold handle_data es r"
  by (induction es arbitrary: r) (simp_all add: handle_line_def startsWith_def)

lemma buffer_fold_handle_data: "buffer (fold handle_data es r) = buffer r"
  by (induction es arbitrary: r) (simp_all add: buffer_handle_data)

lemma read_loop_frames:
  assumes "\<forall>e \<in> set es. P (enc e) = Some e \<and> CHR 0x0A \<notin> set (enc e)"
    and "concat chunks = concat (map (sse_frame enc) es)" and "buffer r = []"
  shows "read_loop P chunks r = fold handle_data es r"
proof -
  have "read_loop P chunks r
          = (fold (handle_line P) (butlast (split_lines (concat chunks))) r)
              \<lparr>buffer := last (split_lines (concat chunks))\<rparr>"
    using read_loop_lines [of r P chunks] assms(3) by simp
  also have "split_lines (concat chunks) = concat (map (\<lambda>e. [''data: '' @ enc e, []]) es) @ [[]]"
    using split_lines_frames [of es enc] assms(1,2) by simp
  finally have "read_loop P chunks r = (fold handle_data es r)\<lparr>buffer := []\<rparr>"
    using fold_handle_line_frames [of es P enc r] assms(1) by simp
  moreover have "buffer (fold handle_data es r) = []"
    using assms(3) by (simp add: buffer_fold_handle_data)
  ultimately show ?thesis by simp
qed

lemma fold_tokens:
  "fold handle_data (map TokenEv ts) r
     = r\<lparr>page := (page r)\<lparr>responseContent := responseContent (page r) @ concat ts\<rparr>\<rparr>"
  by (induction ts arbitrary: r) simp_all

lemma tokens_then_end_tokens:
  "tokens_then_end (map TokenEv ts @ [t]) \<longleftrightarrow> t = DoneEv \<or> (\<exists>m. t = ErrorEv m)"
  by (induction ts) (cases t; simp)+

lemma fold_orchestrator_events:
  "fold handle_data (orchestrator_events count tokens out) r
     = handle_data (case out of Completed \<Rightarrow> DoneEv | Failed message \<Rightarrow> ErrorEv message)
         (r\<lparr>contextCount := count,
            page := (page r)\<lparr>responseContent := responseContent (page r) @ concat tokens\<rparr>\<rparr>)"
  by (simp add: orchestrator_events_def fold_tokens)

lemma ordered_orchestrator_events: "ordered_stream (orchestrator_events count tokens out)"
  by (simp add: orchestrator_events_def tokens_then_end_tokens split: outcome.splits)

text \<open>The recogniser accepts exactly the streams the orchestrator sends.\<close>

lemma tokens_then_end_iff:
  "tokens_then_end es \<longleftrightarrow>
     (\<exists>ts t. es = map TokenEv ts @ [t] \<and> (t = DoneEv \<or> (\<exists>m. t = ErrorEv m)))"
proof
  assume "tokens_then_end es"
  then show "\<exists>ts t. es = map TokenEv ts @ [t] \<and> (t = DoneEv \<or> (\<exists>m. t = ErrorEv m))"
  proof (induction es rule: tokens_then_end.induct)
    case 1
    show ?case by (rule exI [of _ "[]"]) simp
  next
    case (2 message)
    show ?case by (rule exI [of _ "[]"]) simp
  next
    case (3 content es)
    then obtain ts t where "es = map TokenEv ts @ [t]" "t = DoneEv \<or> (\<exists>m. t = ErrorEv m)"
      by auto
    then show ?case by (intro exI [of _ "content # ts"] exI [of _ t]) simp
  qed simp_all
next
  assume "\<exists>ts t. es = map TokenEv ts @ [t] \<and> (t = DoneEv \<or> (\<exists>m. t = ErrorEv m))"
  then show "tokens_then_end es"
    by (auto simp: tokens_then_end_tokens)
qed

lemma ordered_stream_iff:
  "ordered_stream es \<longleftrightarrow> (\<exists>count tokens out. es = orchestrator_events count tokens out)"
proof
  assume "ordered_stream es"
  then obtain count rest where es: "es = ContextEv count # rest" and "tokens_then_end rest"
    by (cases es rule: ordered_stream.cases) auto
  then obtain ts t where rest: "rest = map TokenEv ts @ [t]"
    and t: "t = DoneEv \<or> (\<exists>m. t = ErrorEv m)"
    unfolding tokens_then_end_iff by auto
  from t show "\<exists>count tokens out. es = orchestrator_events count tokens out"
  proof
    assume "t = DoneEv"
    then have "es = orchestrator_events count ts Completed"
      by (simp add: es rest orchestrator_events_def)
    then show ?thesis by blast
  next
    assume "\<exists>m. t = ErrorEv m"
    then obtain m where "t = ErrorEv m" ..
    then have "es = orchestrator_events count ts (Failed m)"
      by (simp add: es rest orchestrator_events_def)
    then show ?thesis by blast
  qed
next
  assume "\<exists>count tokens out. es = orchestrator_events count tokens out"
  then show "ordered_stream es"
    by (auto simp: ordered_orchestrator_events)
qed

lemma example_parse_json_of:
  "\<forall>e \<in> set [ContextEv 2, TokenEv ''Hel'', TokenEv ''lo'', DoneEv, ErrorEv ''model not found''].
     example_parse (json_of e) = Some e \<and> CHR 0x0A \<notin> set (json_of e)"
  by (simp add: example_parse_def quoted_def js_int_string_def digit_char_def)


text \<open>
  Claim C1. The stream of a generation request is one context event with the count, the
  token events, and one done or error event at the end, so the context event precedes every
  token. When the body carries these events, one frame each, the read loop handles exactly
  these events in this order whatever the chunking: the count is stored before the tokens
  are appended, the text shown is the tokens in arrival order, and on done the count is
  reported.
\<close>

theorem stream_consumed_in_order:
  fixes generate_backend :: "request \<Rightarrow> 'g generate_result_scheme fetched"
  assumes enc: "\<forall>e \<in> set (orchestrator_events count tokens out).
                  JSON_parse (enc e) = Some e \<and> CHR 0x0A \<notin> set (enc e)"
    and body: "concat chunks = concat (map (sse_frame enc) (orchestrator_events count tokens out))"
    and start: "buffer r = []"
    and prompt: "js_trim (promptValue a) \<noteq> []"
    and reply: "stream_backend (PostAiStream (js_trim (promptValue a)) (useContext a) (aiModel a))
                  = Body chunks None"
  shows "ordered_stream (orchestrator_events count tokens out) \<and>
         read_loop JSON_parse chunks r = fold handle_data (orchestrator_events count tokens out) r \<and>
         contextCount (read_loop JSON_parse chunks r) = count \<and>
         responseContent (page (read_loop JSON_parse chunks r))
           = responseContent (page r) @ concat tokens \<and>
         responseContent (generateAIResponse True JSON_parse stream_backend generate_backend a)
           = concat tokens \<and>
         responseMeta (generateAIResponse True JSON_parse stream_backend generate_backend a)
           = (case out of
                Completed \<Rightarrow>
                  if count > 0 then ''Used context from '' @ js_int_string count @ '' notes''
                  else ''No context used''
              | Failed message \<Rightarrow> [])"
proof -
  let ?es = "orchestrator_events count tokens out"
  have loop: "\<And>r. buffer r = [] \<Longrightarrow> read_loop JSON_parse chunks r = fold handle_data ?es r"
    using read_loop_frames [OF enc body] by simp
  have cnt: "\<And>r. contextCount (fold handle_data ?es r) = count"
    by (cases out) (simp_all add: fold_orchestrator_events)
  have shown: "\<And>r. responseContent (page (fold handle_data ?es r))
                 = responseContent (page r) @ concat tokens"
    by (cases out) (simp_all add: fold_orchestrator_events emit_def)
  have meta: "\<And>r. responseMeta (page (fold handle_data ?es r))
                 = (case out of
                      Completed \<Rightarrow>
                        if count > 0 then ''Used context from '' @ js_int_string count @ '' notes''
                        else ''No context used''
                    | Failed message \<Rightarrow> responseMeta (page r))"
    by (cases out) (simp_all add: fold_orchestrator_events emit_def)
  define a1 where "a1 = a\<lparr>generateDisabled := True, generateText := ''Generating...'',
        responseContent := [], responseClass := ''ai-response-content loading'',
        responseMeta := []\<rparr>"
  define a2 where "a2 = emit (Fetch (PostAiStream (js_trim (promptValue a)) (useContext a1) (aiModel a1)))
     (a1\<lparr>responseContent := ''Thinking...'',
         responseClass := ''ai-response-content streaming''\<rparr>)"
  define r0 where "r0 = \<lparr>buffer = [], contextCount = 0, page = a2\<lparr>responseContent := []\<rparr>\<rparr>"
  have run: "generateAIResponse True JSON_parse stream_backend generate_backend a
               = (page (read_loop JSON_parse chunks r0))\<lparr>generateDisabled := False, generateText := ''Generate''\<rparr>"
    using prompt reply
    by (simp add: generateAIResponse_def generate_streaming_def Let_def a1_def a2_def r0_def)
  have r0: "buffer r0 = []" "responseContent (page r0) = []" "responseMeta (page r0) = []"
    by (simp_all add: r0_def a2_def a1_def emit_def)
  show ?thesis
    using ordered_orchestrator_events [of count tokens out] loop [OF start] loop [OF r0(1)]
      cnt [of r] shown [of r] shown [of r0] meta [of r0] r0 run
    by (simp split: outcome.splits)
qed

theorem stream_consumed_in_order_witness:
  "ordered_stream [ContextEv 2, TokenEv ''Hel'', TokenEv ''lo'', DoneEv] \<and>
   responseContent (generateAIResponse True example_parse
     (replies (Body [''data: '',
        json_of (ContextEv 2) @ [CHR 0x0A, CHR 0x0A] @ ''data: '' @ json_of (TokenEv ''Hel''),
        [CHR 0x0A, CHR 0x0A] @ sse_frame json_of (TokenEv ''lo'') @ sse_frame json_of DoneEv] None))
     (replies (Rejected ''unused'' :: generate_result fetched)) example_app) = ''Hello'' \<and>
   responseMeta (generateAIResponse True example_parse
     (replies (Body [''data: '',
        json_of (ContextEv 2) @ [CHR 0x0A, CHR 0x0A] @ ''data: '' @ json_of (TokenEv ''Hel''),
        [CHR 0x0A, CHR 0x0A] @ sse_frame json_of (TokenEv ''lo'') @ sse_frame json_of DoneEv] None))
     (replies (Rejected ''unused'' :: generate_result fetched)) example_app)
     = ''Used context from 2 notes''"
proof -
  let ?chunks = "[''data: '',
        json_of (ContextEv 2) @ [CHR 0x0A, CHR 0x0A] @ ''data: '' @ json_of (TokenEv ''Hel''),
        [CHR 0x0A, CHR 0x0A] @ sse_frame json_of (TokenEv ''lo'') @ sse_frame json_of DoneEv]"
  let ?sb = "replies (Body ?chunks None)"
  let ?gb = "replies (Rejected ''unused'' :: generate_result fetched)"
  let ?r = "\<lparr>buffer = [], contextCount = 0, page = example_app\<rparr>"
  have ev: "orchestrator_events 2 [''Hel'', ''lo''] Completed
              = [ContextEv 2, TokenEv ''Hel'', TokenEv ''lo'', DoneEv]"
    by (simp add: orchestrator_events_def)
  have enc: "\<forall>e \<in> set (orchestrator_events 2 [''Hel'', ''lo''] Completed).
               example_parse (json_of e) = Some e \<and> CHR 0x0A \<notin> set (json_of e)"
    using example_parse_json_of unfolding ev by simp
  have body: "concat ?chunks
                = concat (map (sse_frame json_of) (orchestrator_events 2 [''Hel'', ''lo''] Completed))"
    unfolding ev by (simp add: sse_frame_def)
  have start: "buffer ?r = []" by simp
  have prompt: "js_trim (promptValue example_app) \<noteq> []"
    by (simp add: example_app_def js_trim_def js_whitespace_def)
  have reply: "?sb (PostAiStream (js_trim (promptValue example_app)) (useContext example_app)
                 (aiModel example_app)) = Body ?chunks None"
    by simp
  have d: "js_int_string 2 = ''2''" by (simp add: js_int_string_def digit_char_def)
  show ?thesis
    using stream_consumed_in_order
        [where stream_backend = ?sb and generate_backend = ?gb, OF enc body start prompt reply]
      d
    unfolding ev by simp
qed


text \<open>
  Claim C4 does not hold of the stream reader. The \<^verbatim>\<open>throw new Error(data.message)\<close> of
  the error event is caught by the \<^verbatim>\<open>catch\<close> around \<^verbatim>\<open>JSON.parse\<close>, which only logs to
  the console: for a stream of a context event, one token and an error event, the message
  appears nowhere on the page, the reply area keeps the token and its streaming class, and
  the trace holds the request and the console entry.
\<close>

theorem error_event_only_logged:
  "responseContent (generateAIResponse True example_parse
     (replies (Body [sse_frame json_of (ContextEv 2), sse_frame json_of (TokenEv ''Hel''),
        sse_frame json_of (ErrorEv ''model not found'')] None))
     (replies (Rejected ''unused'' :: generate_result fetched)) example_app) = ''Hel'' \<and>
   responseClass (generateAIResponse True example_parse
     (replies (Body [sse_frame json_of (ContextEv 2), sse_frame json_of (TokenEv ''Hel''),
        sse_frame json_of (ErrorEv ''model not found'')] None))
     (replies (Rejected ''unused'' :: generate_result fetched)) example_app)
     = ''ai-response-content streaming'' \<and>
   responseMeta (generateAIResponse True example_parse
     (replies (Body [sse_frame json_of (ContextEv 2), sse_frame json_of (TokenEv ''Hel''),
        sse_frame json_of (ErrorEv ''model not found'')] None))
     (replies (Rejected ''unused'' :: generate_result fetched)) example_app) = [] \<and>
   trace (generateAIResponse True example_parse
     (replies (Body [sse_frame json_of (ContextEv 2), sse_frame json_of (TokenEv ''Hel''),
        sse_frame json_of (ErrorEv ''model not found'')] None))
     (replies (Rejected ''unused'' :: generate_result fetched)) example_app)
     = [Fetch (PostAiStream ''What did I plan?'' True ''llama3''),
        ConsoleError (Error ''model not found'')]"
proof -
  let ?es = "[ContextEv 2, TokenEv ''Hel'', ErrorEv ''model not found'']"
  let ?chunks = "[sse_frame json_of (ContextEv 2), sse_frame json_of (TokenEv ''Hel''),
        sse_frame json_of (ErrorEv ''model not found'')]"
  let ?a2 = "emit (Fetch (PostAiStream ''What did I plan?'' True ''llama3''))
     (example_app\<lparr>generateDisabled := True, generateText := ''Generating...'',
        responseContent := [], responseClass := ''ai-response-content loading'',
        responseMeta := []\<rparr>
      \<lparr>responseContent := ''Thinking...'', responseClass := ''ai-response-content streaming''\<rparr>)"
  let ?r0 = "\<lparr>buffer = [], contextCount = 0, page = ?a2\<lparr>responseContent := []\<rparr>\<rparr>"
  have enc: "\<forall>e \<in> set ?es. example_parse (json_of e) = Some e \<and> CHR 0x0A \<notin> set (json_of e)"
    using example_parse_json_of by simp
  have loop: "read_loop example_parse ?chunks ?r0 = fold handle_data ?es ?r0"
    by (rule read_loop_frames [OF enc]) simp_all
  have prompt: "js_trim (promptValue example_app) = ''What did I plan?''"
    by (simp add: example_app_def js_trim_def js_whitespace_def)
  have run: "generateAIResponse True example_parse (replies (Body ?chunks None))
               (replies (Rejected ''unused'' :: generate_result fetched)) example_app
             = (page (read_loop example_parse ?chunks ?r0))
                 \<lparr>generateDisabled := False, generateText := ''Generate''\<rparr>"
    by (simp add: generateAIResponse_def generate_streaming_def Let_def prompt)
       (simp add: example_app_def)
  show ?thesis
    unfolding run loop by (simp add: emit_def example_app_def)
qed


text \<open>
  For every error event and every state of the reader, the event changes nothing that is
  shown and adds the console entry.
\<close>

lemma error_event_leaves_display:
  "responseContent (page (handle_data (ErrorEv message) r)) = responseContent (page r) \<and>
   responseClass (page (handle_data (ErrorEv message) r)) = responseClass (page r) \<and>
   responseMeta (page (handle_data (ErrorEv message) r)) = responseMeta (page r) \<and>
   trace (page (handle_data (ErrorEv message) r))
     = trace (page r) @ [ConsoleError (Error message)]"
  by (simp add: emit_def)

text \<open>The branch with a single reply does show the error text of the reply.\<close>

lemma plain_generation_shows_error:
  fixes generate_backend :: "request \<Rightarrow> 'g generate_result_scheme fetched"
  assumes "js_trim (promptValue a) \<noteq> []"
    and "generate_backend (PostAiGenerate (js_trim (promptValue a)) (useContext a) (aiModel a))
           = Json result"
    and "error result = Some message" and "message \<noteq> []"
  shows "responseContent (generateAIResponse False JSON_parse stream_backend generate_backend a)
           = ''Error: '' @ message"
  using assms
  by (simp add: generateAIResponse_def generate_plain_def Let_def show_error_def truthy_def
      js_string_of_def)

end
